theory Spec2Isabelle
  imports Complex_Main
begin

section \<open>JSON values and HTTP replies\<close>

text \<open>
  Every handler ends in \<^verbatim>\<open>res.status(c).json(v)\<close>. The value sent is a JSON tree; the
  keys of all objects inside it are what a client can see of a record's fields.
\<close>

datatype json =
    JNull
  | JBool bool
  | JNum real
  | JStr string
  | JArr "json list"
  | JObj "(string \<times> json) list"

fun json_keys :: "json \<Rightarrow> string list" where
  "json_keys (JObj kvs) = concat (map (\<lambda>(k, v). k # json_keys v) kvs)"
| "json_keys (JArr xs) = concat (map json_keys xs)"
| "json_keys _ = []"

text \<open>One violation reported by a validation chain (\<^verbatim>\<open>errors.array()\<close>).\<close>

record verror =
  ve_path :: string
  ve_msg :: string
  ve_value :: "json option"

datatype 'a body =
    Data 'a
  | ErrorMsg string
  | ValidationErrors "verror list"
  | Message string

datatype 'a response = Response (statusCode: nat) (payload: "'a body")

definition verror_json :: "verror \<Rightarrow> json" where
  "verror_json e =
     JObj ([(''type'', JStr ''field'')]
           @ (case ve_value e of None \<Rightarrow> [] | Some v \<Rightarrow> [(''value'', v)])
           @ [(''msg'', JStr (ve_msg e)), (''path'', JStr (ve_path e)),
              (''location'', JStr ''body'')])"

fun body_json :: "('a \<Rightarrow> json) \<Rightarrow> 'a body \<Rightarrow> json" where
  "body_json f (Data x) = f x"
| "body_json f (ErrorMsg m) = JObj [(''error'', JStr m)]"
| "body_json f (ValidationErrors es) = JObj [(''errors'', JArr (map verror_json es))]"
| "body_json f (Message m) = JObj [(''message'', JStr m)]"

definition response_json :: "('a \<Rightarrow> json) \<Rightarrow> 'a response \<Rightarrow> json" where
  "response_json f r = body_json f (payload r)"

section \<open>The record store\<close>

text \<open>
  An ObjectId is modelled by its hexadecimal string form, so \<^verbatim>\<open>_id.toString()\<close> is
  the identity. A collection is the list of its documents in insertion order.
\<close>

type_synonym oid = string

text \<open>
  Modelled from the spec: the User schema (\<^verbatim>\<open>models/User.js\<close> is not among the
  sources). The fields are the ones the controllers, the seed script and the tests read
  and write; \<open>password\<close> holds the stored credential hash.
\<close>

record user =
  uid :: oid
  username :: string
  email :: string
  password :: string
  role :: string
  isActive :: bool
  lastLogin :: "int option"
  userCreatedAt :: int

text \<open>\<^verbatim>\<open>Model.findById\<close>, \<^verbatim>\<open>countDocuments\<close> and \<^verbatim>\<open>findByIdAndUpdate\<close> (one document).\<close>

definition findOne :: "('a \<Rightarrow> bool) \<Rightarrow> 'a list \<Rightarrow> 'a option" where
  "findOne P xs = List.find P xs"

definition countDocuments :: "('a \<Rightarrow> bool) \<Rightarrow> 'a list \<Rightarrow> nat" where
  "countDocuments P xs = length (filter P xs)"

fun updateOne :: "('a \<Rightarrow> bool) \<Rightarrow> ('a \<Rightarrow> 'a) \<Rightarrow> 'a list \<Rightarrow> 'a list" where
  "updateOne P f [] = []"
| "updateOne P f (x # xs) = (if P x then f x # xs else x # updateOne P f xs)"

definition findUserById :: "user list \<Rightarrow> oid \<Rightarrow> user option" where
  "findUserById us i = findOne (\<lambda>u. uid u = i) us"

text \<open>
  The backend's \<^verbatim>\<open>package.json\<close> declares \<^verbatim>\<open>mongoose ^7.5.0\<close>. Two calls the handlers make
  do not work in that version and raise a \<^verbatim>\<open>TypeError\<close> (\<open>None\<close>) whenever they are reached:
  a document has no \<^verbatim>\<open>remove()\<close> method any more, and \<^verbatim>\<open>mongoose.Types.ObjectId\<close> is a class,
  which cannot be called without \<^verbatim>\<open>new\<close>. Both calls sit inside a handler's \<^verbatim>\<open>try\<close> block,
  so the handler answers 500.
\<close>

definition document_remove :: "('a \<Rightarrow> bool) \<Rightarrow> 'a list \<Rightarrow> 'a list option" where
  \<comment> \<open>\<^verbatim>\<open>doc.remove()\<close> on the document selected by the predicate\<close>
  "document_remove P xs = None"

definition ObjectId :: "string \<Rightarrow> oid option" where
  \<comment> \<open>\<^verbatim>\<open>mongoose.Types.ObjectId(s)\<close>, called as a function\<close>
  "ObjectId s = None"

section \<open>User controller\<close>

subsection \<open>deleteUser\<close>

definition deleteUser :: "user list \<Rightarrow> oid \<Rightarrow> unit response \<times> user list" where
  "deleteUser us userId =
     (case findUserById us userId of
        None \<Rightarrow> (Response 404 (ErrorMsg ''User not found''), us)
      | Some u \<Rightarrow>
          if role u = ''admin'' \<and> countDocuments (\<lambda>x. role x = ''admin'') us \<le> 1
          then (Response 400 (ErrorMsg ''Cannot delete the last admin user''), us)
          else
            case document_remove (\<lambda>x. uid x = uid u) us of
              None \<Rightarrow> (Response 500 (ErrorMsg ''Error deleting user''), us)
            | Some us' \<Rightarrow> (Response 200 (Message ''User deleted successfully''), us'))"

subsection \<open>Field validation of the user routes\<close>

text \<open>
  The sanitizer \<^verbatim>\<open>trim()\<close> removes white space at both ends; \<^verbatim>\<open>optional()\<close> skips a
  field that is \<^verbatim>\<open>undefined\<close>. A chain only records its violations on the request; the
  handler reads them with \<^verbatim>\<open>validationResult(req)\<close>.

  A string is the list of its code units, each below 256. White space is what the
  regular expression class \<^verbatim>\<open>\s\<close> (and \<^verbatim>\<open>String.prototype.trim\<close>, used by the schemas)
  matches: TAB, LF, VT, FF, CR, space and the no-break space U+00A0; the other
  characters of that class lie above 255.
\<close>

definition is_space :: "char \<Rightarrow> bool" where
  "is_space c =
     (c \<in> set [CHR 0x09, CHR 0x0A, CHR 0x0B, CHR 0x0C, CHR 0x0D, CHR '' '', CHR 0xA0])"

definition trim :: "string \<Rightarrow> string" where
  "trim s = rev (dropWhile is_space (rev (dropWhile is_space s)))"

text \<open>The \<open>isActive\<close> field of a request body: a JSON boolean or a string.\<close>

datatype flag = FlagBool bool | FlagStr string

fun flag_json :: "flag \<Rightarrow> json" where
  "flag_json (FlagBool v) = JBool v"
| "flag_json (FlagStr s) = JStr s"

fun isBoolean :: "flag \<Rightarrow> bool" where
  "isBoolean (FlagBool v) = True"
| "isBoolean (FlagStr s) = (s \<in> set [''true'', ''false'', ''1'', ''0''])"

record user_update_body =
  ub_username :: "string option"
  ub_email :: "string option"
  ub_role :: "string option"
  ub_isActive :: "flag option"

definition check :: "'a option \<Rightarrow> ('a \<Rightarrow> bool) \<Rightarrow> ('a \<Rightarrow> json) \<Rightarrow> string \<Rightarrow> string
    \<Rightarrow> verror list" where
  \<comment> \<open>an optional field: no violation when absent\<close>
  "check field ok show path msg =
     (case field of
        None \<Rightarrow> []
      | Some v \<Rightarrow> if ok v then []
                  else [\<lparr>ve_path = path, ve_msg = msg, ve_value = Some (show v)\<rparr>])"

definition userUpdateValidation :: "(string \<Rightarrow> bool) \<Rightarrow> user_update_body
    \<Rightarrow> user_update_body \<times> verror list" where
  "userUpdateValidation isEmail b =
     (let b' = b\<lparr>ub_username := map_option trim (ub_username b)\<rparr>
      in (b',
          check (ub_username b') (\<lambda>s. 3 \<le> length s) JStr ''username''
            ''Username must be at least 3 characters long''
          @ check (ub_email b') isEmail JStr ''email'' ''Must be a valid email address''
          @ check (ub_role b') (\<lambda>r. r \<in> set [''admin'', ''user'', ''manager'']) JStr ''role''
              ''Invalid role specified''
          @ check (ub_isActive b') isBoolean flag_json ''isActive''
              ''isActive must be a boolean value''))"

subsection \<open>Middleware\<close>

definition checkRole :: "string list \<Rightarrow> user \<Rightarrow> bool" where
  "checkRole roles reqUser = (role reqUser \<in> set roles)"

definition checkUserAccess :: "user \<Rightarrow> oid \<Rightarrow> bool" where
  "checkUserAccess reqUser targetUserId =
     (if role reqUser = ''admin'' then True
      else if uid reqUser \<noteq> targetUserId then False
      else True)"

subsection \<open>updateUser\<close>

record user_updates =
  up_username :: "string option"
  up_email :: "string option"
  up_role :: "string option"
  up_isActive :: "bool option"

text \<open>\<^verbatim>\<open>findByIdAndUpdate\<close> sets the keys of the update that are defined.\<close>

definition apply_updates :: "user_updates \<Rightarrow> user \<Rightarrow> user" where
  "apply_updates up u =
     u\<lparr>username := (case up_username up of Some n \<Rightarrow> n | None \<Rightarrow> username u),
       email := (case up_email up of Some e \<Rightarrow> e | None \<Rightarrow> email u),
       role := (case up_role up of Some r \<Rightarrow> r | None \<Rightarrow> role u),
       isActive := (case up_isActive up of Some a \<Rightarrow> a | None \<Rightarrow> isActive u)\<rparr>"

definition updateUser :: "user list \<Rightarrow> user \<Rightarrow> oid \<Rightarrow> user_update_body \<Rightarrow> verror list
    \<Rightarrow> user response \<times> user list" where
  "updateUser us reqUser userId b errors =
     (if errors \<noteq> [] then (Response 400 (ValidationErrors errors), us)
      else
        case findOne (\<lambda>u. uid u \<noteq> userId
                          \<and> (Some (email u) = ub_email b \<or> Some (username u) = ub_username b)) us of
          Some existingUser \<Rightarrow>
            (Response 400 (ErrorMsg ''Email or username is already taken''), us)
        | None \<Rightarrow>
            let updates = \<lparr>up_username = ub_username b, up_email = ub_email b,
                           up_role = None, up_isActive = None\<rparr>;
                updates' =
                  (if role reqUser = ''admin''
                   then updates
                     \<lparr>up_role := (case ub_role b of
                                    Some r \<Rightarrow> if r \<noteq> [] then Some r else None
                                  | None \<Rightarrow> None),
                      up_isActive := (case ub_isActive b of
                                        Some (FlagBool v) \<Rightarrow> Some v
                                      | _ \<Rightarrow> None)\<rparr>
                   else updates)
            in case findUserById us userId of
                 None \<Rightarrow> (Response 404 (ErrorMsg ''User not found''), us)
               | Some u \<Rightarrow>
                   (Response 200 (Data (apply_updates updates' u)),
                    updateOne (\<lambda>x. uid x = userId) (apply_updates updates') us))"

text \<open>The route \<^verbatim>\<open>PUT /:userId\<close> after \<^verbatim>\<open>auth\<close>: access check, validation chain, handler.\<close>

definition put_user :: "(string \<Rightarrow> bool) \<Rightarrow> user list \<Rightarrow> user \<Rightarrow> oid \<Rightarrow> user_update_body
    \<Rightarrow> user response \<times> user list" where
  "put_user isEmail us reqUser userId b =
     (if \<not> checkUserAccess reqUser userId
      then (Response 403 (ErrorMsg ''Access denied. You can only modify your own profile.''), us)
      else let (b', errors) = userUpdateValidation isEmail b
           in updateUser us reqUser userId b' errors)"

subsection \<open>register\<close>

record register_body =
  rb_username :: "string option"
  rb_email :: "string option"
  rb_password :: "string option"
  rb_role :: "string option"

text \<open>
  Modelled from the spec: saving a new user (\<^verbatim>\<open>models/User.js\<close> is not among the
  sources). Handle, email and credential are required, the role is one of the fixed set,
  the credential is hashed at creation and a new account is active. \<open>hash\<close> is the
  hashing function and \<open>newId\<close> the identifier the store assigns.
\<close>

definition saveNewUser :: "(string \<Rightarrow> string) \<Rightarrow> oid \<Rightarrow> int \<Rightarrow> register_body \<Rightarrow> string
    \<Rightarrow> user option" where
  "saveNewUser hash newId now b r =
     (case (rb_username b, rb_email b, rb_password b) of
        (Some n, Some e, Some p) \<Rightarrow>
          if r \<in> set [''admin'', ''user'', ''manager'']
          then Some \<lparr>uid = newId, username = n, email = e, password = hash p, role = r,
                     isActive = True, lastLogin = None, userCreatedAt = now\<rparr>
          else None
      | _ \<Rightarrow> None)"

text \<open>\<open>errors\<close> is what the route's validation chain recorded (\<^verbatim>\<open>routes/auth.js\<close> is not
  among the sources); \<open>generateToken\<close> signs the identifier.\<close>

definition register :: "(string \<Rightarrow> string) \<Rightarrow> (oid \<Rightarrow> string) \<Rightarrow> oid \<Rightarrow> int \<Rightarrow> user list
    \<Rightarrow> register_body \<Rightarrow> verror list \<Rightarrow> (user \<times> string) response \<times> user list" where
  "register hash generateToken newId now us b errors =
     (if errors \<noteq> [] then (Response 400 (ValidationErrors errors), us)
      else
        case findOne (\<lambda>u. Some (email u) = rb_email b \<or> Some (username u) = rb_username b) us of
          Some existingUser \<Rightarrow>
            (Response 400 (ErrorMsg ''User already exists with this email or username''), us)
        | None \<Rightarrow>
            let r = (case rb_role b of
                       Some x \<Rightarrow> if x \<noteq> [] then x else ''user''
                     | None \<Rightarrow> ''user'')
            in case saveNewUser hash newId now b r of
                 None \<Rightarrow> (Response 500 (ErrorMsg ''Error creating user''), us)
               | Some u \<Rightarrow>
                   (Response 201 (Data (u, generateToken (uid u))), us @ [u]))"

section \<open>Workload entries\<close>

text \<open>The schema \<^verbatim>\<open>workloadDataSchema\<close>; hours are real numbers, dates are instants.\<close>

record workload =
  wid :: oid
  developer :: oid
  project :: string
  taskName :: string
  taskType :: string
  hoursSpent :: real
  date :: int
  status :: string
  priority :: string
  description :: "string option"
  blockers :: "string option"
  tags :: "string list"
  dependencies :: "oid list"
  createdAt :: int
  updatedAt :: int

definition taskTypes :: "string list" where
  "taskTypes = [''development'', ''bug-fix'', ''review'', ''meeting'', ''documentation'', ''other'']"

definition statuses :: "string list" where
  "statuses = [''planned'', ''in-progress'', ''completed'', ''blocked'']"

definition priorities :: "string list" where
  "priorities = [''high'', ''medium'', ''low'']"

text \<open>The validators the schema runs when a document is saved: \<^verbatim>\<open>required\<close> (a required
  string may not be empty), \<^verbatim>\<open>enum\<close> and \<^verbatim>\<open>min: 0\<close>.\<close>

definition schema_valid :: "workload \<Rightarrow> bool" where
  "schema_valid w =
     (project w \<noteq> [] \<and> taskName w \<noteq> [] \<and> taskType w \<in> set taskTypes
      \<and> 0 \<le> hoursSpent w \<and> status w \<in> set statuses \<and> priority w \<in> set priorities)"

text \<open>A request body of the workload routes. A field is absent (\<open>None\<close>) or carries a value
  of its JSON type; the date is the string the client sent.\<close>

record workload_body =
  wb_developer :: "oid option"
  wb_project :: "string option"
  wb_taskName :: "string option"
  wb_taskType :: "string option"
  wb_hoursSpent :: "real option"
  wb_date :: "string option"
  wb_status :: "string option"
  wb_priority :: "string option"
  wb_description :: "string option"
  wb_blockers :: "string option"
  wb_tags :: "string list option"
  wb_dependencies :: "oid list option"

subsection \<open>Field validation of the workload routes\<close>

definition require :: "'a option \<Rightarrow> ('a \<Rightarrow> bool) \<Rightarrow> ('a \<Rightarrow> json) \<Rightarrow> string \<Rightarrow> string
    \<Rightarrow> verror list" where
  \<comment> \<open>a mandatory field: an absent one violates every validator used here\<close>
  "require field ok show path msg =
     (case field of
        None \<Rightarrow> [\<lparr>ve_path = path, ve_msg = msg, ve_value = None\<rparr>]
      | Some v \<Rightarrow> if ok v then []
                  else [\<lparr>ve_path = path, ve_msg = msg, ve_value = Some (show v)\<rparr>])"

definition trimmed :: "string option \<Rightarrow> string option" where
  \<comment> \<open>\<^verbatim>\<open>trim()\<close> on a mandatory field: an absent value becomes the empty string\<close>
  "trimmed f = Some (trim (case f of None \<Rightarrow> [] | Some s \<Rightarrow> s))"

definition workloadCreateValidation :: "(string \<Rightarrow> bool) \<Rightarrow> workload_body
    \<Rightarrow> workload_body \<times> verror list" where
  "workloadCreateValidation isISO8601 b =
     (let b' = b\<lparr>wb_project := trimmed (wb_project b), wb_taskName := trimmed (wb_taskName b)\<rparr>
      in (b',
          require (wb_project b') (\<lambda>s. s \<noteq> []) JStr ''project'' ''Project name is required''
          @ require (wb_taskName b') (\<lambda>s. s \<noteq> []) JStr ''taskName'' ''Task name is required''
          @ require (wb_taskType b') (\<lambda>t. t \<in> set taskTypes) JStr ''taskType'' ''Invalid task type''
          @ require (wb_hoursSpent b') (\<lambda>h. 0 \<le> h) JNum ''hoursSpent''
              ''Hours spent must be a positive number''
          @ require (wb_date b') isISO8601 JStr ''date'' ''Invalid date format''
          @ require (wb_status b') (\<lambda>t. t \<in> set statuses) JStr ''status'' ''Invalid status''
          @ require (wb_priority b') (\<lambda>t. t \<in> set priorities) JStr ''priority''
              ''Invalid priority level''))"

definition workloadUpdateValidation :: "(string \<Rightarrow> bool) \<Rightarrow> workload_body
    \<Rightarrow> workload_body \<times> verror list" where
  "workloadUpdateValidation isISO8601 b =
     (let b' = b\<lparr>wb_project := map_option trim (wb_project b),
                 wb_taskName := map_option trim (wb_taskName b)\<rparr>
      in (b',
          check (wb_project b') (\<lambda>s. s \<noteq> []) JStr ''project'' ''Project name cannot be empty''
          @ check (wb_taskName b') (\<lambda>s. s \<noteq> []) JStr ''taskName'' ''Task name cannot be empty''
          @ check (wb_taskType b') (\<lambda>t. t \<in> set taskTypes) JStr ''taskType'' ''Invalid task type''
          @ check (wb_hoursSpent b') (\<lambda>h. 0 \<le> h) JNum ''hoursSpent''
              ''Hours spent must be a positive number''
          @ check (wb_date b') isISO8601 JStr ''date'' ''Invalid date format''
          @ check (wb_status b') (\<lambda>t. t \<in> set statuses) JStr ''status'' ''Invalid status''
          @ check (wb_priority b') (\<lambda>t. t \<in> set priorities) JStr ''priority''
              ''Invalid priority level''))"

subsection \<open>createWorkload\<close>

text \<open>
  \<^verbatim>\<open>new WorkloadData(obj)\<close> followed by \<^verbatim>\<open>save()\<close>: the fields are cast (strings trimmed,
  the date string cast by \<open>castDate\<close>), defaults filled in, and the schema validated; a
  missing required field, a failed cast or a failed validator makes \<^verbatim>\<open>save\<close> throw
  (\<open>None\<close>).
\<close>

definition newWorkload :: "(string \<Rightarrow> int option) \<Rightarrow> oid \<Rightarrow> int \<Rightarrow> workload_body
    \<Rightarrow> workload option" where
  "newWorkload castDate newId now b =
     (case wb_developer b of None \<Rightarrow> None | Some d \<Rightarrow>
      case wb_project b of None \<Rightarrow> None | Some p \<Rightarrow>
      case wb_taskName b of None \<Rightarrow> None | Some n \<Rightarrow>
      case wb_taskType b of None \<Rightarrow> None | Some t \<Rightarrow>
      case wb_hoursSpent b of None \<Rightarrow> None | Some h \<Rightarrow>
      case wb_date b of None \<Rightarrow> None | Some ds \<Rightarrow>
      case castDate ds of None \<Rightarrow> None | Some dt \<Rightarrow>
        let w = \<lparr>wid = newId, developer = d, project = trim p, taskName = trim n,
                 taskType = t, hoursSpent = h, date = dt,
                 status = (case wb_status b of None \<Rightarrow> ''planned'' | Some s \<Rightarrow> s),
                 priority = (case wb_priority b of None \<Rightarrow> ''medium'' | Some s \<Rightarrow> s),
                 description = map_option trim (wb_description b),
                 blockers = map_option trim (wb_blockers b),
                 tags = (case wb_tags b of None \<Rightarrow> [] | Some ts \<Rightarrow> map trim ts),
                 dependencies = (case wb_dependencies b of None \<Rightarrow> [] | Some ds \<Rightarrow> ds),
                 createdAt = now, updatedAt = now\<rparr>
        in if schema_valid w then Some w else None)"

definition createWorkload :: "(string \<Rightarrow> int option) \<Rightarrow> oid \<Rightarrow> int \<Rightarrow> workload list \<Rightarrow> user
    \<Rightarrow> workload_body \<Rightarrow> verror list \<Rightarrow> workload response \<times> workload list" where
  "createWorkload castDate newId now ws reqUser b errors =
     (if errors \<noteq> [] then (Response 400 (ValidationErrors errors), ws)
      else
        case newWorkload castDate newId now (b\<lparr>wb_developer := Some (uid reqUser)\<rparr>) of
          None \<Rightarrow> (Response 500 (ErrorMsg ''Error creating workload entry''), ws)
        | Some w \<Rightarrow> (Response 201 (Data w), ws @ [w]))"

text \<open>The route \<^verbatim>\<open>POST /\<close> after \<^verbatim>\<open>auth\<close>.\<close>

definition post_workload :: "(string \<Rightarrow> bool) \<Rightarrow> (string \<Rightarrow> int option) \<Rightarrow> oid \<Rightarrow> int
    \<Rightarrow> workload list \<Rightarrow> user \<Rightarrow> workload_body \<Rightarrow> workload response \<times> workload list" where
  "post_workload isISO8601 castDate newId now ws reqUser b =
     (let (b', errors) = workloadCreateValidation isISO8601 b
      in createWorkload castDate newId now ws reqUser b' errors)"

subsection \<open>updateWorkload\<close>

text \<open>\<^verbatim>\<open>Object.assign(workload, updates)\<close>: every key of the body is set on the document,
  cast as the schema says; \<open>None\<close> when the date cannot be cast.\<close>

definition assign :: "(string \<Rightarrow> int option) \<Rightarrow> workload \<Rightarrow> workload_body \<Rightarrow> workload option" where
  "assign castDate w b =
     (case (case wb_date b of None \<Rightarrow> Some (date w) | Some ds \<Rightarrow> castDate ds) of
        None \<Rightarrow> None
      | Some dt \<Rightarrow>
          Some (w\<lparr>developer := (case wb_developer b of None \<Rightarrow> developer w | Some d \<Rightarrow> d),
                  project := (case wb_project b of None \<Rightarrow> project w | Some p \<Rightarrow> trim p),
                  taskName := (case wb_taskName b of None \<Rightarrow> taskName w | Some n \<Rightarrow> trim n),
                  taskType := (case wb_taskType b of None \<Rightarrow> taskType w | Some t \<Rightarrow> t),
                  hoursSpent := (case wb_hoursSpent b of None \<Rightarrow> hoursSpent w | Some h \<Rightarrow> h),
                  date := dt,
                  status := (case wb_status b of None \<Rightarrow> status w | Some s \<Rightarrow> s),
                  priority := (case wb_priority b of None \<Rightarrow> priority w | Some s \<Rightarrow> s),
                  description := (case wb_description b of None \<Rightarrow> description w
                                  | Some s \<Rightarrow> Some (trim s)),
                  blockers := (case wb_blockers b of None \<Rightarrow> blockers w
                               | Some s \<Rightarrow> Some (trim s)),
                  tags := (case wb_tags b of None \<Rightarrow> tags w | Some ts \<Rightarrow> map trim ts),
                  dependencies := (case wb_dependencies b of None \<Rightarrow> dependencies w
                                   | Some ds \<Rightarrow> ds)\<rparr>))"

definition updateWorkload :: "(string \<Rightarrow> int option) \<Rightarrow> int \<Rightarrow> workload list \<Rightarrow> user \<Rightarrow> oid
    \<Rightarrow> workload_body \<Rightarrow> workload response \<times> workload list" where
  "updateWorkload castDate now ws reqUser entryId updates =
     (case findOne (\<lambda>w. wid w = entryId) ws of
        None \<Rightarrow> (Response 404 (ErrorMsg ''Workload entry not found''), ws)
      | Some w \<Rightarrow>
          if role reqUser \<noteq> ''admin'' \<and> developer w \<noteq> uid reqUser
          then (Response 403 (ErrorMsg ''Access denied''), ws)
          else
            case assign castDate w updates of
              None \<Rightarrow> (Response 500 (ErrorMsg ''Error updating workload entry''), ws)
            | Some w' \<Rightarrow>
                if \<not> schema_valid w'
                then (Response 500 (ErrorMsg ''Error updating workload entry''), ws)
                else let w'' = w'\<lparr>updatedAt := now\<rparr>
                     in (Response 200 (Data w''),
                         updateOne (\<lambda>x. wid x = entryId) (\<lambda>_. w'') ws))"

text \<open>The route \<^verbatim>\<open>PUT /:entryId\<close> after \<^verbatim>\<open>auth\<close>: the chain \<^verbatim>\<open>workloadUpdateValidation\<close> runs and
  sanitizes the body, but this handler never reads the violations it recorded.\<close>

definition put_workload :: "(string \<Rightarrow> bool) \<Rightarrow> (string \<Rightarrow> int option) \<Rightarrow> int \<Rightarrow> workload list
    \<Rightarrow> user \<Rightarrow> oid \<Rightarrow> workload_body \<Rightarrow> workload response \<times> workload list" where
  "put_workload isISO8601 castDate now ws reqUser entryId b =
     (let (b', errors) = workloadUpdateValidation isISO8601 b
      in updateWorkload castDate now ws reqUser entryId b')"

subsection \<open>deleteWorkload\<close>

definition deleteWorkload :: "workload list \<Rightarrow> user \<Rightarrow> oid \<Rightarrow> unit response \<times> workload list" where
  "deleteWorkload ws reqUser entryId =
     (case findOne (\<lambda>w. wid w = entryId) ws of
        None \<Rightarrow> (Response 404 (ErrorMsg ''Workload entry not found''), ws)
      | Some w \<Rightarrow>
          if role reqUser \<noteq> ''admin'' \<and> developer w \<noteq> uid reqUser
          then (Response 403 (ErrorMsg ''Access denied''), ws)
          else
            case document_remove (\<lambda>x. wid x = wid w) ws of
              None \<Rightarrow> (Response 500 (ErrorMsg ''Error deleting workload entry''), ws)
            | Some ws' \<Rightarrow>
                (Response 200 (Message ''Workload entry deleted successfully''), ws'))"

section \<open>Queries\<close>

subsection \<open>Paging\<close>

text \<open>
  \<^verbatim>\<open>page\<close> and \<^verbatim>\<open>limit\<close> arrive as decimal query strings and are modelled by the naturals
  they denote. \<^verbatim>\<open>.skip(n)\<close> is rejected by the store for negative \<open>n\<close> (the handler then
  answers 500) and \<^verbatim>\<open>.limit(0)\<close> means no limit. \<^verbatim>\<open>Math.ceil(total / limit)\<close> is not a
  finite number for \<open>limit = 0\<close> (\<open>None\<close>, sent as \<^verbatim>\<open>null\<close>).
\<close>

definition skip_limit :: "int \<Rightarrow> nat \<Rightarrow> 'a list \<Rightarrow> 'a list option" where
  "skip_limit skip limit xs =
     (if skip < 0 then None
      else let rest = drop (nat skip) xs
           in Some (if limit = 0 then rest else take limit rest))"

definition page_count :: "nat \<Rightarrow> nat \<Rightarrow> nat option" where
  "page_count n limit =
     (if limit = 0 then None else Some (nat \<lceil>real n / real limit\<rceil>))"

record 'a listing =
  lst_items :: "'a list"
  lst_total :: nat
  lst_page :: nat
  lst_pages :: "nat option"

definition truthy :: "string option \<Rightarrow> bool" where
  "truthy s = (case s of None \<Rightarrow> False | Some x \<Rightarrow> x \<noteq> [])"

subsection \<open>getUsers, getUserById, getUserStats\<close>

record users_query =
  uq_page :: "nat option"
  uq_limit :: "nat option"
  uq_search :: "string option"
  uq_role :: "string option"

text \<open>\<open>regexTest p s\<close>: the store's case-insensitive \<^verbatim>\<open>$regex\<close> match of pattern \<open>p\<close> in \<open>s\<close>.\<close>

definition user_matches :: "(string \<Rightarrow> string \<Rightarrow> bool) \<Rightarrow> users_query \<Rightarrow> user \<Rightarrow> bool" where
  "user_matches regexTest q u =
     ((case uq_search q of
         None \<Rightarrow> True
       | Some s \<Rightarrow> s = [] \<or> regexTest s (username u) \<or> regexTest s (email u))
      \<and> (case uq_role q of None \<Rightarrow> True | Some r \<Rightarrow> r = [] \<or> role u = r))"

definition getUsers :: "(string \<Rightarrow> string \<Rightarrow> bool) \<Rightarrow> user list \<Rightarrow> users_query
    \<Rightarrow> user listing response" where
  "getUsers regexTest us q =
     (let pg = (case uq_page q of None \<Rightarrow> 1 | Some p \<Rightarrow> p);
          limit = (case uq_limit q of None \<Rightarrow> 10 | Some l \<Rightarrow> l);
          skip = (int pg - 1) * int limit;
          found = sort_key (\<lambda>u. - userCreatedAt u) (filter (user_matches regexTest q) us)
      in case skip_limit skip limit found of
           None \<Rightarrow> Response 500 (ErrorMsg ''Error fetching users'')
         | Some users \<Rightarrow>
             let n = countDocuments (user_matches regexTest q) us
             in Response 200
                  (Data \<lparr>lst_items = users, lst_total = n, lst_page = pg,
                         lst_pages = page_count n limit\<rparr>))"

definition getUserById :: "user list \<Rightarrow> oid \<Rightarrow> user response" where
  "getUserById us userId =
     (case findUserById us userId of
        None \<Rightarrow> Response 404 (ErrorMsg ''User not found'')
      | Some u \<Rightarrow> Response 200 (Data u))"

record role_stat =
  rs_id :: string
  rs_count :: nat
  rs_activeUsers :: nat

fun add_role :: "user \<Rightarrow> role_stat list \<Rightarrow> role_stat list" where
  "add_role u [] =
     [\<lparr>rs_id = role u, rs_count = 1, rs_activeUsers = (if isActive u then 1 else 0)\<rparr>]"
| "add_role u (g # gs) =
     (if rs_id g = role u
      then g\<lparr>rs_count := rs_count g + 1,
             rs_activeUsers := rs_activeUsers g + (if isActive u then 1 else 0)\<rparr> # gs
      else g # add_role u gs)"

record user_stats =
  us_totalUsers :: nat
  us_activeUsers :: nat
  us_inactiveUsers :: int
  us_roleDistribution :: "role_stat list"

definition getUserStats :: "user list \<Rightarrow> user_stats response" where
  "getUserStats us =
     (let stats = foldl (\<lambda>gs u. add_role u gs) [] us;
          totalUsers = foldl (\<lambda>acc curr. acc + rs_count curr) 0 stats;
          activeUsers = foldl (\<lambda>acc curr. acc + rs_activeUsers curr) 0 stats
      in Response 200
           (Data \<lparr>us_totalUsers = totalUsers, us_activeUsers = activeUsers,
                  us_inactiveUsers = int totalUsers - int activeUsers,
                  us_roleDistribution = stats\<rparr>))"

subsection \<open>getWorkloads\<close>

text \<open>A query-string date is modelled by the instant it denotes (\<open>None\<close>: not given).\<close>

record workloads_query =
  wq_startDate :: "int option"
  wq_endDate :: "int option"
  wq_project :: "string option"
  wq_status :: "string option"
  wq_taskType :: "string option"
  wq_page :: "nat option"
  wq_limit :: "nat option"

text \<open>The filter object handed to \<^verbatim>\<open>find\<close> and \<^verbatim>\<open>countDocuments\<close>.\<close>

record workload_filter =
  f_date :: "(int \<times> int) option"
  f_project :: "string option"
  f_status :: "string option"
  f_taskType :: "string option"
  f_developer :: "oid option"

definition matches :: "workload_filter \<Rightarrow> workload \<Rightarrow> bool" where
  "matches f w =
     ((case f_date f of None \<Rightarrow> True | Some (s, e) \<Rightarrow> s \<le> date w \<and> date w \<le> e)
      \<and> (case f_project f of None \<Rightarrow> True | Some p \<Rightarrow> project w = p)
      \<and> (case f_status f of None \<Rightarrow> True | Some p \<Rightarrow> status w = p)
      \<and> (case f_taskType f of None \<Rightarrow> True | Some p \<Rightarrow> taskType w = p)
      \<and> (case f_developer f of None \<Rightarrow> True | Some d \<Rightarrow> developer w = d))"

definition workloads_filter :: "user \<Rightarrow> workloads_query \<Rightarrow> workload_filter" where
  "workloads_filter reqUser q =
     (let q0 = \<lparr>f_date = None, f_project = None, f_status = None, f_taskType = None,
                f_developer = None\<rparr>;
          q1 = (case (wq_startDate q, wq_endDate q) of
                  (Some s, Some e) \<Rightarrow> q0\<lparr>f_date := Some (s, e)\<rparr>
                | _ \<Rightarrow> q0);
          q2 = (if truthy (wq_project q) then q1\<lparr>f_project := wq_project q\<rparr> else q1);
          q3 = (if truthy (wq_status q) then q2\<lparr>f_status := wq_status q\<rparr> else q2);
          q4 = (if truthy (wq_taskType q) then q3\<lparr>f_taskType := wq_taskType q\<rparr> else q3)
      in if role reqUser \<noteq> ''admin'' then q4\<lparr>f_developer := Some (uid reqUser)\<rparr> else q4)"

definition getWorkloads :: "workload list \<Rightarrow> user \<Rightarrow> workloads_query
    \<Rightarrow> workload listing response" where
  "getWorkloads ws reqUser q =
     (let pg = (case wq_page q of None \<Rightarrow> 1 | Some p \<Rightarrow> p);
          limit = (case wq_limit q of None \<Rightarrow> 10 | Some l \<Rightarrow> l);
          query = workloads_filter reqUser q;
          skip = (int pg - 1) * int limit;
          found = sort_key (\<lambda>w. - date w) (filter (matches query) ws)
      in case skip_limit skip limit found of
           None \<Rightarrow> Response 500 (ErrorMsg ''Error fetching workload data'')
         | Some workloads \<Rightarrow>
             let n = countDocuments (matches query) ws
             in Response 200
                  (Data \<lparr>lst_items = workloads, lst_total = n, lst_page = pg,
                         lst_pages = page_count n limit\<rparr>))"

subsection \<open>getWorkloadStats\<close>

record pair_group =
  pg_developer :: oid
  pg_taskType :: string
  pg_totalHours :: real
  pg_taskCount :: nat

fun add_pair :: "workload \<Rightarrow> pair_group list \<Rightarrow> pair_group list" where
  "add_pair w [] =
     [\<lparr>pg_developer = developer w, pg_taskType = taskType w, pg_totalHours = hoursSpent w,
       pg_taskCount = 1\<rparr>]"
| "add_pair w (g # gs) =
     (if pg_developer g = developer w \<and> pg_taskType g = taskType w
      then g\<lparr>pg_totalHours := pg_totalHours g + hoursSpent w,
             pg_taskCount := pg_taskCount g + 1\<rparr> # gs
      else g # add_pair w gs)"

record type_stat =
  ts_taskType :: string
  ts_totalHours :: real
  ts_taskCount :: nat

record dev_group =
  dg_id :: oid
  dg_workloadByType :: "type_stat list"
  dg_totalHours :: real

definition pushed :: "pair_group \<Rightarrow> type_stat" where
  "pushed p = \<lparr>ts_taskType = pg_taskType p, ts_totalHours = pg_totalHours p,
               ts_taskCount = pg_taskCount p\<rparr>"

fun add_dev :: "pair_group \<Rightarrow> dev_group list \<Rightarrow> dev_group list" where
  "add_dev p [] =
     [\<lparr>dg_id = pg_developer p, dg_workloadByType = [pushed p], dg_totalHours = pg_totalHours p\<rparr>]"
| "add_dev p (g # gs) =
     (if dg_id g = pg_developer p
      then g\<lparr>dg_workloadByType := dg_workloadByType g @ [pushed p],
             dg_totalHours := dg_totalHours g + pg_totalHours p\<rparr> # gs
      else g # add_dev p gs)"

record dev_stats =
  ds_id :: oid
  ds_workloadByType :: "type_stat list"
  ds_totalHours :: real
  ds_developer :: user

text \<open>The aggregation pipeline of the static \<^verbatim>\<open>WorkloadData.getWorkloadStats\<close>: match, two
  group stages, the lookup of the user and its unwinding (a group without a user record
  yields nothing).\<close>

definition aggregateStats :: "user list \<Rightarrow> workload list \<Rightarrow> int \<Rightarrow> int \<Rightarrow> oid option
    \<Rightarrow> dev_stats list" where
  "aggregateStats us ws startDate endDate developer_match =
     (let matched = filter (\<lambda>w. startDate \<le> date w \<and> date w \<le> endDate
                               \<and> (case developer_match of None \<Rightarrow> True
                                   | Some d \<Rightarrow> developer w = d)) ws;
          pairs = foldl (\<lambda>gs w. add_pair w gs) [] matched;
          groups = foldl (\<lambda>gs p. add_dev p gs) [] pairs
      in concat (map (\<lambda>g. map (\<lambda>u. \<lparr>ds_id = dg_id g, ds_workloadByType = dg_workloadByType g,
                                     ds_totalHours = dg_totalHours g, ds_developer = u\<rparr>)
                              (filter (\<lambda>u. uid u = dg_id g) us)) groups))"

text \<open>The static itself: it builds the match object, converting a given developer
  identifier with \<^verbatim>\<open>mongoose.Types.ObjectId(developerId)\<close>, and runs the pipeline; \<open>None\<close>
  when it throws.\<close>

definition workloadStats :: "user list \<Rightarrow> workload list \<Rightarrow> int \<Rightarrow> int \<Rightarrow> oid option
    \<Rightarrow> dev_stats list option" where
  "workloadStats us ws startDate endDate developerId =
     (case developerId of
        None \<Rightarrow> Some (aggregateStats us ws startDate endDate None)
      | Some d \<Rightarrow>
          (case ObjectId d of
             None \<Rightarrow> None
           | Some i \<Rightarrow> Some (aggregateStats us ws startDate endDate (Some i))))"

record stats_query =
  sq_startDate :: "int option"
  sq_endDate :: "int option"
  sq_developerId :: "string option"

definition getWorkloadStats :: "user list \<Rightarrow> workload list \<Rightarrow> user \<Rightarrow> stats_query
    \<Rightarrow> dev_stats list response" where
  "getWorkloadStats us ws reqUser q =
     (case (sq_startDate q, sq_endDate q) of
        (Some startDate, Some endDate) \<Rightarrow>
          if role reqUser \<noteq> ''admin'' \<and> truthy (sq_developerId q)
             \<and> sq_developerId q \<noteq> Some (uid reqUser)
          then Response 403 (ErrorMsg ''Access denied'')
          else
            (case workloadStats us ws startDate endDate
                    (if truthy (sq_developerId q) then sq_developerId q
                     else if role reqUser \<noteq> ''admin'' then Some (uid reqUser)
                     else None) of
               None \<Rightarrow> Response 500 (ErrorMsg ''Error fetching workload statistics'')
             | Some stats \<Rightarrow> Response 200 (Data stats))
      | _ \<Rightarrow> Response 400 (ErrorMsg ''Start and end dates are required''))"

subsection \<open>getProjectSummary\<close>

record project_group =
  pj_id :: string
  pj_totalHours :: real
  pj_taskCount :: nat
  pj_completedTasks :: nat
  pj_blockedTasks :: nat

fun add_project :: "workload \<Rightarrow> project_group list \<Rightarrow> project_group list" where
  "add_project w [] =
     [\<lparr>pj_id = project w, pj_totalHours = hoursSpent w, pj_taskCount = 1,
       pj_completedTasks = (if status w = ''completed'' then 1 else 0),
       pj_blockedTasks = (if status w = ''blocked'' then 1 else 0)\<rparr>]"
| "add_project w (g # gs) =
     (if pj_id g = project w
      then g\<lparr>pj_totalHours := pj_totalHours g + hoursSpent w,
             pj_taskCount := pj_taskCount g + 1,
             pj_completedTasks := pj_completedTasks g + (if status w = ''completed'' then 1 else 0),
             pj_blockedTasks := pj_blockedTasks g + (if status w = ''blocked'' then 1 else 0)\<rparr>
           # gs
      else g # add_project w gs)"

text \<open>\<^verbatim>\<open>$divide\<close> fails the whole pipeline when the divisor is zero.\<close>

definition divide_op :: "real \<Rightarrow> real \<Rightarrow> real option" where
  "divide_op a b = (if b = 0 then None else Some (a / b))"

record project_summary =
  ps_id :: string
  ps_project :: string
  ps_totalHours :: real
  ps_taskCount :: nat
  ps_completedTasks :: nat
  ps_blockedTasks :: nat
  ps_completionRate :: real

definition project_stage :: "project_group \<Rightarrow> project_summary option" where
  "project_stage g =
     (case divide_op (real (pj_completedTasks g)) (real (pj_taskCount g)) of
        None \<Rightarrow> None
      | Some r \<Rightarrow>
          Some \<lparr>ps_id = pj_id g, ps_project = pj_id g, ps_totalHours = pj_totalHours g,
                ps_taskCount = pj_taskCount g, ps_completedTasks = pj_completedTasks g,
                ps_blockedTasks = pj_blockedTasks g, ps_completionRate = r * 100\<rparr>)"

record summary_query =
  pq_startDate :: "int option"
  pq_endDate :: "int option"

definition in_range :: "int \<Rightarrow> int \<Rightarrow> workload \<Rightarrow> bool" where
  "in_range startDate endDate w = (startDate \<le> date w \<and> date w \<le> endDate)"

definition getProjectSummary :: "workload list \<Rightarrow> summary_query
    \<Rightarrow> project_summary list response" where
  "getProjectSummary ws q =
     (case (pq_startDate q, pq_endDate q) of
        (Some startDate, Some endDate) \<Rightarrow>
          let matched = filter (in_range startDate endDate) ws;
              groups = foldl (\<lambda>gs w. add_project w gs) [] matched
          in (case those (map project_stage groups) of
                None \<Rightarrow> Response 500 (ErrorMsg ''Error fetching project summary'')
              | Some projected \<Rightarrow>
                  Response 200 (Data (sort_key (\<lambda>g. - ps_totalHours g) projected)))
      | _ \<Rightarrow> Response 400 (ErrorMsg ''Start and end dates are required''))"

section \<open>What is sent to the client\<close>

text \<open>
  A stored user document with all its paths, and the projections the handlers apply to
  it: \<^verbatim>\<open>.select('-password')\<close>, \<^verbatim>\<open>.populate('developer', '-password')\<close> and the
  \<^verbatim>\<open>$project\<close> stage that sets \<^verbatim>\<open>developer.password\<close> and \<^verbatim>\<open>developer.__v\<close> to 0.
\<close>

definition user_doc :: "user \<Rightarrow> (string \<times> json) list" where
  "user_doc u =
     [(''_id'', JStr (uid u)), (''username'', JStr (username u)), (''email'', JStr (email u)),
      (''password'', JStr (password u)), (''role'', JStr (role u)),
      (''isActive'', JBool (isActive u)),
      (''lastLogin'', (case lastLogin u of None \<Rightarrow> JNull | Some t \<Rightarrow> JNum (real_of_int t))),
      (''createdAt'', JNum (real_of_int (userCreatedAt u))), (''__v'', JNum 0)]"

definition exclude :: "string \<Rightarrow> (string \<times> json) list \<Rightarrow> (string \<times> json) list" where
  "exclude k doc = filter (\<lambda>(k', v). k' \<noteq> k) doc"

definition user_json :: "user \<Rightarrow> json" where
  "user_json u = JObj (exclude ''password'' (user_doc u))"

definition optional_field :: "string \<Rightarrow> string option \<Rightarrow> (string \<times> json) list" where
  "optional_field k v = (case v of None \<Rightarrow> [] | Some s \<Rightarrow> [(k, JStr s)])"

definition populate :: "user list \<Rightarrow> oid \<Rightarrow> json" where
  "populate us d =
     (case findUserById us d of None \<Rightarrow> JNull | Some u \<Rightarrow> JObj (exclude ''password'' (user_doc u)))"

definition workload_json :: "user list \<Rightarrow> workload \<Rightarrow> json" where
  "workload_json us w =
     JObj ([(''_id'', JStr (wid w)), (''developer'', populate us (developer w)),
            (''project'', JStr (project w)), (''taskName'', JStr (taskName w)),
            (''taskType'', JStr (taskType w)), (''hoursSpent'', JNum (hoursSpent w)),
            (''date'', JNum (real_of_int (date w))), (''status'', JStr (status w)),
            (''priority'', JStr (priority w))]
           @ optional_field ''description'' (description w)
           @ optional_field ''blockers'' (blockers w)
           @ [(''tags'', JArr (map JStr (tags w))),
              (''dependencies'', JArr (map JStr (dependencies w))),
              (''createdAt'', JNum (real_of_int (createdAt w))),
              (''updatedAt'', JNum (real_of_int (updatedAt w))), (''__v'', JNum 0)])"

definition listing_json :: "string \<Rightarrow> ('a \<Rightarrow> json) \<Rightarrow> 'a listing \<Rightarrow> json" where
  "listing_json name f l =
     JObj [(name, JArr (map f (lst_items l))),
           (''pagination'',
            JObj [(''total'', JNum (real (lst_total l))), (''page'', JNum (real (lst_page l))),
                  (''pages'', (case lst_pages l of None \<Rightarrow> JNull | Some n \<Rightarrow> JNum (real n)))])]"

definition role_stat_json :: "role_stat \<Rightarrow> json" where
  "role_stat_json g =
     JObj [(''_id'', JStr (rs_id g)), (''count'', JNum (real (rs_count g))),
           (''activeUsers'', JNum (real (rs_activeUsers g))), (''role'', JStr (rs_id g)),
           (''inactiveUsers'', JNum (real (rs_count g) - real (rs_activeUsers g)))]"

definition user_stats_json :: "user_stats \<Rightarrow> json" where
  "user_stats_json st =
     JObj [(''totalUsers'', JNum (real (us_totalUsers st))),
           (''activeUsers'', JNum (real (us_activeUsers st))),
           (''inactiveUsers'', JNum (real_of_int (us_inactiveUsers st))),
           (''roleDistribution'', JArr (map role_stat_json (us_roleDistribution st)))]"

definition type_stat_json :: "type_stat \<Rightarrow> json" where
  "type_stat_json t =
     JObj [(''taskType'', JStr (ts_taskType t)), (''totalHours'', JNum (ts_totalHours t)),
           (''taskCount'', JNum (real (ts_taskCount t)))]"

definition dev_stats_json :: "dev_stats \<Rightarrow> json" where
  "dev_stats_json d =
     JObj [(''_id'', JStr (ds_id d)),
           (''workloadByType'', JArr (map type_stat_json (ds_workloadByType d))),
           (''totalHours'', JNum (ds_totalHours d)),
           (''developer'',
            JObj (exclude ''__v'' (exclude ''password'' (user_doc (ds_developer d)))))]"

definition project_summary_json :: "project_summary \<Rightarrow> json" where
  "project_summary_json g =
     JObj [(''_id'', JStr (ps_id g)), (''totalHours'', JNum (ps_totalHours g)),
           (''taskCount'', JNum (real (ps_taskCount g))),
           (''completedTasks'', JNum (real (ps_completedTasks g))),
           (''blockedTasks'', JNum (real (ps_blockedTasks g))),
           (''project'', JStr (ps_project g)),
           (''completionRate'', JNum (ps_completionRate g))]"

text \<open>The JSON bodies of the endpoints that carry user data.\<close>

definition sent_getUsers :: "(string \<Rightarrow> string \<Rightarrow> bool) \<Rightarrow> user list \<Rightarrow> users_query \<Rightarrow> json" where
  "sent_getUsers regexTest us q =
     response_json (listing_json ''users'' user_json) (getUsers regexTest us q)"

definition sent_getUserById :: "user list \<Rightarrow> oid \<Rightarrow> json" where
  "sent_getUserById us userId = response_json user_json (getUserById us userId)"

definition sent_put_user :: "(string \<Rightarrow> bool) \<Rightarrow> user list \<Rightarrow> user \<Rightarrow> oid \<Rightarrow> user_update_body
    \<Rightarrow> json" where
  "sent_put_user isEmail us reqUser userId b =
     response_json user_json (fst (put_user isEmail us reqUser userId b))"

definition sent_getUserStats :: "user list \<Rightarrow> json" where
  "sent_getUserStats us = response_json user_stats_json (getUserStats us)"

definition sent_getWorkloads :: "user list \<Rightarrow> workload list \<Rightarrow> user \<Rightarrow> workloads_query \<Rightarrow> json" where
  "sent_getWorkloads us ws reqUser q =
     response_json (listing_json ''workloads'' (workload_json us)) (getWorkloads ws reqUser q)"

definition sent_getWorkloadStats :: "user list \<Rightarrow> workload list \<Rightarrow> user \<Rightarrow> stats_query
    \<Rightarrow> json" where
  "sent_getWorkloadStats us ws reqUser q =
     response_json (\<lambda>l. JArr (map dev_stats_json l)) (getWorkloadStats us ws reqUser q)"

definition sent_post_workload :: "(string \<Rightarrow> bool) \<Rightarrow> (string \<Rightarrow> int option) \<Rightarrow> oid \<Rightarrow> int
    \<Rightarrow> user list \<Rightarrow> workload list \<Rightarrow> user \<Rightarrow> workload_body \<Rightarrow> json" where
  "sent_post_workload isISO8601 castDate newId now us ws reqUser b =
     response_json (workload_json us)
       (fst (post_workload isISO8601 castDate newId now ws reqUser b))"

definition sent_put_workload :: "(string \<Rightarrow> bool) \<Rightarrow> (string \<Rightarrow> int option) \<Rightarrow> int
    \<Rightarrow> user list \<Rightarrow> workload list \<Rightarrow> user \<Rightarrow> oid \<Rightarrow> workload_body \<Rightarrow> json" where
  "sent_put_workload isISO8601 castDate now us ws reqUser entryId b =
     response_json (workload_json us)
       (fst (put_workload isISO8601 castDate now ws reqUser entryId b))"

section \<open>Sample data\<close>

text \<open>The users of the seed script and a few entries, used to run the handlers.\<close>

definition seed_admin :: user where
  "seed_admin = \<lparr>uid = ''0a'', username = ''admin'', email = ''admin@example.com'',
     password = ''$2a$10$hash0'', role = ''admin'', isActive = True, lastLogin = None,
     userCreatedAt = 1\<rparr>"

definition seed_admin2 :: user where
  "seed_admin2 = \<lparr>uid = ''0b'', username = ''root'', email = ''root@example.com'',
     password = ''$2a$10$hash9'', role = ''admin'', isActive = True, lastLogin = None,
     userCreatedAt = 5\<rparr>"

definition seed_dev1 :: user where
  "seed_dev1 = \<lparr>uid = ''01'', username = ''developer1'', email = ''dev1@example.com'',
     password = ''$2a$10$hash1'', role = ''user'', isActive = True, lastLogin = None,
     userCreatedAt = 2\<rparr>"

definition seed_dev2 :: user where
  "seed_dev2 = \<lparr>uid = ''02'', username = ''developer2'', email = ''dev2@example.com'',
     password = ''$2a$10$hash2'', role = ''user'', isActive = True, lastLogin = None,
     userCreatedAt = 3\<rparr>"

definition seed_manager :: user where
  "seed_manager = \<lparr>uid = ''03'', username = ''manager1'', email = ''manager1@example.com'',
     password = ''$2a$10$hash3'', role = ''manager'', isActive = True, lastLogin = None,
     userCreatedAt = 4\<rparr>"

definition seed_users :: "user list" where
  "seed_users = [seed_admin, seed_dev1, seed_dev2, seed_manager]"

definition entry :: "oid \<Rightarrow> oid \<Rightarrow> string \<Rightarrow> real \<Rightarrow> int \<Rightarrow> string \<Rightarrow> workload" where
  "entry i d p h t st =
     \<lparr>wid = i, developer = d, project = p, taskName = ''Task'', taskType = ''development'',
      hoursSpent = h, date = t, status = st, priority = ''medium'', description = None,
      blockers = None, tags = [], dependencies = [], createdAt = t, updatedAt = t\<rparr>"

definition sample_entries :: "workload list" where
  "sample_entries =
     [entry ''e1'' ''01'' ''Backend API'' 4 10 ''completed'',
      entry ''e2'' ''01'' ''Backend API'' 2 12 ''planned'',
      entry ''e3'' ''02'' ''Mobile App'' 8 11 ''completed'']"

definition empty_body :: workload_body where
  "empty_body = \<lparr>wb_developer = None, wb_project = None, wb_taskName = None,
     wb_taskType = None, wb_hoursSpent = None, wb_date = None, wb_status = None,
     wb_priority = None, wb_description = None, wb_blockers = None, wb_tags = None,
     wb_dependencies = None\<rparr>"

section \<open>Reference functions for the aggregations\<close>

text \<open>One more entry accumulated into a project group, and the group a first entry opens.\<close>

definition absorb :: "workload \<Rightarrow> project_group \<Rightarrow> project_group" where
  "absorb w g =
     g\<lparr>pj_totalHours := pj_totalHours g + hoursSpent w,
       pj_taskCount := pj_taskCount g + 1,
       pj_completedTasks := pj_completedTasks g + (if status w = ''completed'' then 1 else 0),
       pj_blockedTasks := pj_blockedTasks g + (if status w = ''blocked'' then 1 else 0)\<rparr>"

definition opened :: "workload \<Rightarrow> project_group" where
  "opened w =
     \<lparr>pj_id = project w, pj_totalHours = hoursSpent w, pj_taskCount = 1,
      pj_completedTasks = (if status w = ''completed'' then 1 else 0),
      pj_blockedTasks = (if status w = ''blocked'' then 1 else 0)\<rparr>"

text \<open>What the group stage has accumulated for project \<open>p\<close> after the entries \<open>ws\<close>.\<close>

definition group_of :: "workload list \<Rightarrow> string \<Rightarrow> project_group" where
  "group_of ws p =
     \<lparr>pj_id = p,
      pj_totalHours = sum_list (map hoursSpent (filter (\<lambda>w. project w = p) ws)),
      pj_taskCount = length (filter (\<lambda>w. project w = p) ws),
      pj_completedTasks = length (filter (\<lambda>w. project w = p \<and> status w = ''completed'') ws),
      pj_blockedTasks = length (filter (\<lambda>w. project w = p \<and> status w = ''blocked'') ws)\<rparr>"

definition grouped :: "workload list \<Rightarrow> project_group list \<Rightarrow> bool" where
  "grouped ws gs =
     (distinct (map pj_id gs)
      \<and> (\<forall>g \<in> set gs. group_of ws (pj_id g) = g \<and> (\<exists>w \<in> set ws. project w = pj_id g)))"

text \<open>The summary row the \<^verbatim>\<open>$project\<close> stage makes of a group with at least one entry.\<close>

definition summarize :: "project_group \<Rightarrow> project_summary" where
  "summarize g =
     \<lparr>ps_id = pj_id g, ps_project = pj_id g, ps_totalHours = pj_totalHours g,
      ps_taskCount = pj_taskCount g, ps_completedTasks = pj_completedTasks g,
      ps_blockedTasks = pj_blockedTasks g,
      ps_completionRate = real (pj_completedTasks g) / real (pj_taskCount g) * 100\<rparr>"

text \<open>The entries a list request selects, in the order of the \<^verbatim>\<open>sort({ date: -1 })\<close>; the
  page number and page size a request asks for; and the requested filters alone, without
  the ownership the handler adds.\<close>

definition ordered_matches :: "workload list \<Rightarrow> user \<Rightarrow> workloads_query \<Rightarrow> workload list" where
  "ordered_matches ws reqUser q =
     sort_key (\<lambda>w. - date w) (filter (matches (workloads_filter reqUser q)) ws)"

definition page_of :: "workloads_query \<Rightarrow> nat" where
  "page_of q = (case wq_page q of None \<Rightarrow> 1 | Some p \<Rightarrow> p)"

definition limit_of :: "workloads_query \<Rightarrow> nat" where
  "limit_of q = (case wq_limit q of None \<Rightarrow> 10 | Some l \<Rightarrow> l)"

definition requested :: "user \<Rightarrow> workloads_query \<Rightarrow> workload_filter" where
  "requested reqUser q = (workloads_filter reqUser q)\<lparr>f_developer := None\<rparr>"

definition limit_zero_query :: workloads_query where
  "limit_zero_query = \<lparr>wq_startDate = None, wq_endDate = None, wq_project = None,
     wq_status = None, wq_taskType = None, wq_page = None, wq_limit = Some 0\<rparr>"

definition all_query :: workloads_query where
  "all_query = \<lparr>wq_startDate = None, wq_endDate = None, wq_project = None,
     wq_status = None, wq_taskType = None, wq_page = None, wq_limit = None\<rparr>"

definition backend_query :: workloads_query where
  "backend_query = \<lparr>wq_startDate = Some 0, wq_endDate = Some 100,
     wq_project = Some ''Backend API'', wq_status = None, wq_taskType = None,
     wq_page = None, wq_limit = None\<rparr>"

text \<open>The entries at offsets \<open>(p - 1) * limit\<close> through \<open>p * limit - 1\<close> of the ordered
  matches, for the page \<open>p\<close> and the page size the request asks for.\<close>

definition page_items :: "workload list \<Rightarrow> user \<Rightarrow> workloads_query \<Rightarrow> workload list" where
  "page_items ws reqUser q =
     take (limit_of q) (drop ((page_of q - 1) * limit_of q) (ordered_matches ws reqUser q))"

text \<open>Fifteen entries of one developer, one per day, and the request for their second page.\<close>

definition fifteen_entries :: "workload list" where
  "fifteen_entries =
     map (\<lambda>n. entry (replicate (Suc n) CHR ''e'') ''01'' ''Backend API'' 1 (int n) ''planned'')
       [0..<15]"

definition second_page_query :: workloads_query where
  "second_page_query = \<lparr>wq_startDate = None, wq_endDate = None, wq_project = None,
     wq_status = None, wq_taskType = None, wq_page = Some 2, wq_limit = None\<rparr>"

text \<open>Requests for workload statistics: naming another developer without a date range, and
  a complete request of \<open>developer1\<close> for their own statistics.\<close>

definition other_no_dates_query :: stats_query where
  "other_no_dates_query = \<lparr>sq_startDate = None, sq_endDate = None, sq_developerId = Some ''02''\<rparr>"

definition own_stats_query :: stats_query where
  "own_stats_query = \<lparr>sq_startDate = Some 0, sq_endDate = Some 100, sq_developerId = Some ''01''\<rparr>"

definition other_stats_query :: stats_query where
  "other_stats_query = \<lparr>sq_startDate = Some 0, sq_endDate = Some 100, sq_developerId = Some ''02''\<rparr>"

text \<open>Self-update bodies of \<open>developer1\<close>: one that takes the administrator's handle and
  asks for the administrator role, and one that renames the account and asks for the
  role and for deactivation.\<close>

definition taken_name_body :: user_update_body where
  "taken_name_body = \<lparr>ub_username = Some ''admin'', ub_email = None,
     ub_role = Some ''admin'', ub_isActive = None\<rparr>"

definition rename_body :: user_update_body where
  "rename_body = \<lparr>ub_username = Some '' dev-one '', ub_email = None,
     ub_role = Some ''admin'', ub_isActive = Some (FlagBool False)\<rparr>"

text \<open>A self-update whose handle is a no-break space followed by two letters: trimmed, it
  is shorter than the three characters the validation asks for.\<close>

definition nbsp_body :: user_update_body where
  "nbsp_body = \<lparr>ub_username = Some [CHR 0xA0, CHR ''a'', CHR ''b''], ub_email = None,
     ub_role = Some ''admin'', ub_isActive = None\<rparr>"

text \<open>No other user holds the handle or the email of the (sanitized) body.\<close>

definition not_taken :: "user list \<Rightarrow> oid \<Rightarrow> user_update_body \<Rightarrow> bool" where
  "not_taken us userId b =
     (\<forall>u \<in> set us. uid u \<noteq> userId \<longrightarrow>
        Some (email u) \<noteq> ub_email b \<and> Some (username u) \<noteq> ub_username b)"

text \<open>A stand-in for the library's \<^verbatim>\<open>isEmail\<close> when running the handlers on sample data.\<close>

definition has_at :: "string \<Rightarrow> bool" where
  "has_at s = (CHR ''@'' \<in> set s)"

text \<open>A registration body that asks for the administrator role, with stand-ins for the
  hashing and signing functions.\<close>

definition admin_signup :: register_body where
  "admin_signup = \<lparr>rb_username = Some ''mallory'', rb_email = Some ''mallory@example.com'',
     rb_password = Some ''secret12'', rb_role = Some ''admin''\<rparr>"

definition toy_hash :: "string \<Rightarrow> string" where
  "toy_hash p = ''$2a$10$'' @ rev p"

definition toy_token :: "oid \<Rightarrow> string" where
  "toy_token i = ''token-'' @ i"

text \<open>An update body that only sets negative hours.\<close>

definition negative_hours_body :: workload_body where
  "negative_hours_body = empty_body\<lparr>wb_hoursSpent := Some (- 1)\<rparr>"

text \<open>A violation whose echoed value is a JSON scalar (no object inside it).\<close>

definition scalar_error :: "verror \<Rightarrow> bool" where
  "scalar_error e = (case ve_value e of None \<Rightarrow> True | Some v \<Rightarrow> json_keys v = [])"

section \<open>Properties\<close>

subsection \<open>Store helpers\<close>

lemma findOne_Some_holds: "findOne P xs = Some x \<Longrightarrow> P x \<and> x \<in> set xs"
  unfolding findOne_def by (induction xs) (auto split: if_splits)

subsection \<open>The last administrator\<close>

lemma deleteUser_sole_admin:
  assumes "findUserById us i = Some u" and "role u = ''admin''"
    and "countDocuments (\<lambda>x. role x = ''admin'') us = 1"
  shows "deleteUser us i = (Response 400 (ErrorMsg ''Cannot delete the last admin user''), us)"
  using assms by (simp add: deleteUser_def)

lemma deleteUser_past_guard:
  assumes "findUserById us i = Some u"
    and "role u \<noteq> ''admin'' \<or> 2 \<le> countDocuments (\<lambda>x. role x = ''admin'') us"
  shows "deleteUser us i = (Response 500 (ErrorMsg ''Error deleting user''), us)"
  using assms by (auto simp: deleteUser_def document_remove_def)

lemma deleteUser_store: "snd (deleteUser us i) = us"
  by (simp add: deleteUser_def document_remove_def split: option.splits)

lemma deleteUser_never_200: "statusCode (fst (deleteUser us i)) \<noteq> 200"
  by (simp add: deleteUser_def document_remove_def split: option.splits)

text \<open>
  C2. Two administrators are stored and one of them is the target of a delete-user
  request. The guard lets the request pass, \<^verbatim>\<open>user.remove()\<close> throws, and the handler
  answers 500 with nothing deleted, where the request should succeed. (The guard itself
  works: the only administrator is refused with 400, and no request ever removes the last
  administrator, since no request removes anything.)
\<close>

theorem deleteUser_two_admins_500:
  "findUserById [seed_admin, seed_admin2, seed_dev1] ''0a'' = Some seed_admin
   \<and> role seed_admin = ''admin''
   \<and> countDocuments (\<lambda>x. role x = ''admin'') [seed_admin, seed_admin2, seed_dev1] = 2
   \<and> deleteUser [seed_admin, seed_admin2, seed_dev1] ''0a''
       = (Response 500 (ErrorMsg ''Error deleting user''), [seed_admin, seed_admin2, seed_dev1])"
  by (simp add: deleteUser_def document_remove_def findUserById_def findOne_def
      countDocuments_def seed_admin_def seed_admin2_def seed_dev1_def)

subsection \<open>Grouping by project\<close>

lemma add_project_Nil: "add_project w [] = [opened w]"
  by (simp add: opened_def)

lemma add_project_Cons:
  "add_project w (g # gs) = (if pj_id g = project w then absorb w g # gs else g # add_project w gs)"
  by (simp add: absorb_def)

lemma pj_id_absorb: "pj_id (absorb w g) = pj_id g"
  by (simp add: absorb_def)

lemma pj_id_opened: "pj_id (opened w) = project w"
  by (simp add: opened_def)

lemma add_project_ids:
  "map pj_id (add_project w gs) =
     (if project w \<in> set (map pj_id gs) then map pj_id gs else map pj_id gs @ [project w])"
  by (induction gs) auto

lemma add_project_elem:
  assumes "g' \<in> set (add_project w gs)" and "distinct (map pj_id gs)"
  shows "(g' \<in> set gs \<and> pj_id g' \<noteq> project w)
       \<or> (\<exists>g \<in> set gs. pj_id g = project w \<and> g' = absorb w g)
       \<or> (project w \<notin> set (map pj_id gs) \<and> g' = opened w)"
  using assms
proof (induction gs)
  case Nil
  then show ?case by (simp del: add_project.simps add: add_project_Nil)
next
  case (Cons a gs)
  show ?case
  proof (cases "pj_id a = project w")
    case True
    from Cons.prems(2) have n: "pj_id a \<notin> pj_id ` set gs" by simp
    have tl: "\<forall>g \<in> set gs. pj_id g \<noteq> project w"
    proof (intro ballI notI)
      fix g assume "g \<in> set gs" and "pj_id g = project w"
      then have "project w \<in> pj_id ` set gs" by (metis imageI)
      with n True show False by simp
    qed
    from True Cons.prems(1) have "g' = absorb w a \<or> g' \<in> set gs"
      by (simp del: add_project.simps add: add_project_Cons)
    then show ?thesis
    proof
      assume "g' \<in> set gs"
      with tl show ?thesis by simp
    next
      assume "g' = absorb w a"
      with True show ?thesis by simp
    qed
  next
    case False
    from Cons.prems(2) have d: "distinct (map pj_id gs)" by simp
    from False Cons.prems(1) have "g' = a \<or> g' \<in> set (add_project w gs)"
      by (simp del: add_project.simps add: add_project_Cons)
    then show ?thesis
    proof
      assume "g' = a"
      with False show ?thesis by simp
    next
      assume "g' \<in> set (add_project w gs)"
      from Cons.IH[OF this d]
      show ?thesis
      proof (elim disjE conjE bexE)
        assume "g' \<in> set gs" "pj_id g' \<noteq> project w"
        then show ?thesis by simp
      next
        fix g assume "g \<in> set gs" "pj_id g = project w" "g' = absorb w g"
        then show ?thesis by (intro disjI2 disjI1) auto
      next
        assume "project w \<notin> set (map pj_id gs)" "g' = opened w"
        with False show ?thesis by (intro disjI2) auto
      qed
    qed
  qed
qed

lemma group_of_snoc_other:
  "p \<noteq> project w \<Longrightarrow> group_of (ws @ [w]) p = group_of ws p"
  by (simp add: group_of_def)

lemma group_of_snoc_same:
  "group_of (ws @ [w]) (project w) = absorb w (group_of ws (project w))"
  by (simp add: group_of_def absorb_def)

lemma group_of_fresh:
  assumes "project w \<notin> project ` set ws"
  shows "group_of (ws @ [w]) (project w) = opened w"
proof -
  from assms have "\<forall>x \<in> set ws. project x \<noteq> project w"
    by (metis imageI)
  then have "filter (\<lambda>x. project x = project w) ws = []"
    by (simp add: filter_empty_conv)
  moreover from this have "filter (\<lambda>x. project x = project w \<and> status x = ''completed'') ws = []"
    and "filter (\<lambda>x. project x = project w \<and> status x = ''blocked'') ws = []"
    by (auto simp: filter_empty_conv)
  ultimately show ?thesis by (simp add: group_of_def opened_def)
qed

lemma grouped_step:
  assumes "grouped ws gs"
    and cover: "project ` set ws \<subseteq> set (map pj_id gs)"
  shows "grouped (ws @ [w]) (add_project w gs)"
  unfolding grouped_def
proof (intro conjI ballI)
  from assms show "distinct (map pj_id (add_project w gs))"
    by (auto simp: add_project_ids grouped_def)
next
  fix g' assume "g' \<in> set (add_project w gs)"
  moreover from assms(1) have "distinct (map pj_id gs)" by (simp add: grouped_def)
  ultimately have "(g' \<in> set gs \<and> pj_id g' \<noteq> project w)
       \<or> (\<exists>g \<in> set gs. pj_id g = project w \<and> g' = absorb w g)
       \<or> (project w \<notin> set (map pj_id gs) \<and> g' = opened w)"
    by (rule add_project_elem)
  then show "group_of (ws @ [w]) (pj_id g') = g'"
  proof (elim disjE conjE bexE)
    assume "g' \<in> set gs" "pj_id g' \<noteq> project w"
    with assms(1) show ?thesis by (simp add: grouped_def group_of_snoc_other)
  next
    fix g assume g: "g \<in> set gs" "pj_id g = project w" and g': "g' = absorb w g"
    from assms(1) g have "group_of ws (project w) = g" by (auto simp: grouped_def)
    with g' g show ?thesis by (simp add: group_of_snoc_same pj_id_absorb)
  next
    assume n: "project w \<notin> set (map pj_id gs)" and g': "g' = opened w"
    from n cover have "project w \<notin> project ` set ws" by auto
    from group_of_fresh[OF this] g' show ?thesis by (simp add: pj_id_opened)
  qed
next
  fix g' assume "g' \<in> set (add_project w gs)"
  moreover from assms(1) have "distinct (map pj_id gs)" by (simp add: grouped_def)
  ultimately have "(g' \<in> set gs \<and> pj_id g' \<noteq> project w)
       \<or> (\<exists>g \<in> set gs. pj_id g = project w \<and> g' = absorb w g)
       \<or> (project w \<notin> set (map pj_id gs) \<and> g' = opened w)"
    by (rule add_project_elem)
  then show "\<exists>x \<in> set (ws @ [w]). project x = pj_id g'"
  proof (elim disjE conjE bexE)
    assume "g' \<in> set gs" "pj_id g' \<noteq> project w"
    with assms(1) show ?thesis by (auto simp: grouped_def)
  next
    fix g assume "g \<in> set gs" "pj_id g = project w" "g' = absorb w g"
    then show ?thesis by (simp add: pj_id_absorb)
  next
    assume "project w \<notin> set (map pj_id gs)" "g' = opened w"
    then show ?thesis by (simp add: pj_id_opened)
  qed
qed

lemma grouped_foldl:
  "grouped ws (foldl (\<lambda>gs w. add_project w gs) [] ws)
   \<and> pj_id ` set (foldl (\<lambda>gs w. add_project w gs) [] ws) = project ` set ws"
proof (induction ws rule: rev_induct)
  case Nil
  show ?case by (simp add: grouped_def)
next
  case (snoc w ws)
  let ?G = "foldl (\<lambda>gs w. add_project w gs) [] ws"
  from snoc have g: "grouped ws ?G" and c: "pj_id ` set ?G = project ` set ws"
    by blast+
  have step: "foldl (\<lambda>gs w. add_project w gs) [] (ws @ [w]) = add_project w ?G"
    by simp
  from c have "project ` set ws \<subseteq> set (map pj_id ?G)" by simp
  from grouped_step[OF g this] have g': "grouped (ws @ [w]) (add_project w ?G)" .
  have "set (map pj_id (add_project w ?G)) = insert (project w) (pj_id ` set ?G)"
    by (simp only: add_project_ids) auto
  with c have "pj_id ` set (add_project w ?G) = project ` set (ws @ [w])" by simp
  with g' step show ?case by simp
qed

lemma group_count_pos:
  assumes "grouped ws gs" and "g \<in> set gs"
  shows "1 \<le> pj_taskCount g"
proof -
  from assms have g: "group_of ws (pj_id g) = g"
    and ex: "\<exists>w \<in> set ws. project w = pj_id g"
    unfolding grouped_def by blast+
  from ex have "filter (\<lambda>x. project x = pj_id g) ws \<noteq> []"
    by (simp add: filter_empty_conv)
  then have "1 \<le> length (filter (\<lambda>x. project x = pj_id g) ws)"
    by (cases "filter (\<lambda>x. project x = pj_id g) ws") simp_all
  moreover have "pj_taskCount (group_of ws (pj_id g)) = length (filter (\<lambda>x. project x = pj_id g) ws)"
    by (simp add: group_of_def)
  ultimately show ?thesis using g by metis
qed

subsection \<open>The project summary\<close>

lemma those_map_Some:
  "\<forall>x \<in> set xs. f x = Some (g x) \<Longrightarrow> those (map f xs) = Some (map g xs)"
  by (induction xs) auto

lemma project_stage_summarize:
  "1 \<le> pj_taskCount g \<Longrightarrow> project_stage g = Some (summarize g)"
  by (simp add: project_stage_def divide_op_def summarize_def)

lemma filter_in_range_project:
  "filter (\<lambda>w. project w = p) (filter (in_range s e) ws)
     = filter (\<lambda>w. in_range s e w \<and> project w = p) ws"
  by (simp add: conj_commute)

lemma filter_in_range_completed:
  "filter (\<lambda>w. project w = p \<and> status w = ''completed'') (filter (in_range s e) ws)
     = filter (\<lambda>w. in_range s e w \<and> project w = p \<and> status w = ''completed'') ws"
  by (simp add: conj_commute conj_left_commute)

lemma getProjectSummary_result:
  "getProjectSummary ws \<lparr>pq_startDate = Some s, pq_endDate = Some e\<rparr> =
     Response 200 (Data (sort_key (\<lambda>g. - ps_totalHours g)
       (map summarize (foldl (\<lambda>gs w. add_project w gs) [] (filter (in_range s e) ws)))))"
proof -
  let ?G = "foldl (\<lambda>gs w. add_project w gs) [] (filter (in_range s e) ws)"
  have "grouped (filter (in_range s e) ws) ?G"
    using grouped_foldl by blast
  then have "\<forall>g \<in> set ?G. project_stage g = Some (summarize g)"
    by (blast intro: project_stage_summarize group_count_pos)
  then have "those (map project_stage ?G) = Some (map summarize ?G)"
    by (rule those_map_Some)
  then show ?thesis
    by (simp add: getProjectSummary_def)
qed

lemma summary_row:
  assumes "g' \<in> set (sort_key (\<lambda>g. - ps_totalHours g)
       (map summarize (foldl (\<lambda>gs w. add_project w gs) [] (filter (in_range s e) ws))))"
  shows "\<exists>g. g' = summarize g
            \<and> group_of (filter (in_range s e) ws) (pj_id g) = g
            \<and> (\<exists>w \<in> set ws. in_range s e w \<and> project w = pj_id g)
            \<and> 1 \<le> pj_taskCount g"
proof -
  let ?M = "filter (in_range s e) ws"
  let ?G = "foldl (\<lambda>gs w. add_project w gs) [] ?M"
  have gr: "grouped ?M ?G" using grouped_foldl by blast
  from assms obtain g where g: "g \<in> set ?G" and g': "g' = summarize g"
    by auto
  from gr g have eq: "group_of ?M (pj_id g) = g" and "\<exists>w \<in> set ?M. project w = pj_id g"
    unfolding grouped_def by blast+
  then have "\<exists>w \<in> set ws. in_range s e w \<and> project w = pj_id g" by auto
  with g' eq group_count_pos[OF gr g] show ?thesis by blast
qed

text \<open>
  C9. With both dates given the project summary is always produced (the division in the
  completion rate never has a zero divisor): every group of the aggregation and every
  row of the reply has \<open>taskCount \<ge> 1\<close> and stands for at least one matched entry.
\<close>

theorem project_summary_no_zero_division:
  "(\<forall>g \<in> set (foldl (\<lambda>gs w. add_project w gs) [] (filter (in_range s e) ws)).
       1 \<le> pj_taskCount g
     \<and> divide_op (real (pj_completedTasks g)) (real (pj_taskCount g)) \<noteq> None)
   \<and> (\<exists>summary.
        getProjectSummary ws \<lparr>pq_startDate = Some s, pq_endDate = Some e\<rparr>
          = Response 200 (Data summary)
        \<and> (\<forall>r \<in> set summary.
              1 \<le> ps_taskCount r
            \<and> (\<exists>w \<in> set ws. in_range s e w \<and> project w = ps_project r)))"
proof (intro conjI ballI)
  fix g assume g: "g \<in> set (foldl (\<lambda>gs w. add_project w gs) [] (filter (in_range s e) ws))"
  have "grouped (filter (in_range s e) ws)
          (foldl (\<lambda>gs w. add_project w gs) [] (filter (in_range s e) ws))"
    using grouped_foldl by blast
  from group_count_pos[OF this g] show "1 \<le> pj_taskCount g" .
  then show "divide_op (real (pj_completedTasks g)) (real (pj_taskCount g)) \<noteq> None"
    by (simp add: divide_op_def)
next
  let ?S = "sort_key (\<lambda>g. - ps_totalHours g)
       (map summarize (foldl (\<lambda>gs w. add_project w gs) [] (filter (in_range s e) ws)))"
  have "\<forall>r \<in> set ?S. 1 \<le> ps_taskCount r
            \<and> (\<exists>w \<in> set ws. in_range s e w \<and> project w = ps_project r)"
  proof
    fix r assume "r \<in> set ?S"
    from summary_row[OF this] obtain g where "r = summarize g"
      and "\<exists>w \<in> set ws. in_range s e w \<and> project w = pj_id g" and "1 \<le> pj_taskCount g"
      by blast
    then show "1 \<le> ps_taskCount r
            \<and> (\<exists>w \<in> set ws. in_range s e w \<and> project w = ps_project r)"
      by (simp add: summarize_def)
  qed
  with getProjectSummary_result[of ws s e]
  show "\<exists>summary.
        getProjectSummary ws \<lparr>pq_startDate = Some s, pq_endDate = Some e\<rparr>
          = Response 200 (Data summary)
        \<and> (\<forall>r \<in> set summary.
              1 \<le> ps_taskCount r
            \<and> (\<exists>w \<in> set ws. in_range s e w \<and> project w = ps_project r))"
    by blast
qed

lemma summary_projects:
  "distinct (map ps_project (sort_key (\<lambda>g. - ps_totalHours g)
       (map summarize (foldl (\<lambda>gs w. add_project w gs) [] (filter (in_range s e) ws)))))
   \<and> set (map ps_project (sort_key (\<lambda>g. - ps_totalHours g)
       (map summarize (foldl (\<lambda>gs w. add_project w gs) [] (filter (in_range s e) ws)))))
       = project ` {w \<in> set ws. in_range s e w}"
proof -
  let ?M = "filter (in_range s e) ws"
  let ?G = "foldl (\<lambda>gs w. add_project w gs) [] ?M"
  let ?S = "sort_key (\<lambda>g. - ps_totalHours g) (map summarize ?G)"
  have gr: "grouped ?M ?G" and ids: "pj_id ` set ?G = project ` set ?M"
    using grouped_foldl by blast+
  have "ps_project \<circ> summarize = pj_id"
    by (rule ext) (simp add: summarize_def)
  then have m: "map ps_project (map summarize ?G) = map pj_id ?G"
    by (simp only: map_map)
  from gr have "distinct (map pj_id ?G)" by (simp add: grouped_def)
  then have "distinct (map ps_project (map summarize ?G))" by (simp only: m)
  then have "distinct (map summarize ?G) \<and> inj_on ps_project (set (map summarize ?G))"
    by (simp only: distinct_map)
  then have "distinct ?S \<and> inj_on ps_project (set ?S)" by simp
  then have d: "distinct (map ps_project ?S)" by (simp only: distinct_map)
  have "set (map ps_project ?S) = set (map ps_project (map summarize ?G))"
    by (simp only: set_map set_sort)
  also have "\<dots> = pj_id ` set ?G" unfolding m by simp
  also have "\<dots> = project ` {w \<in> set ws. in_range s e w}" unfolding ids by simp
  finally show ?thesis using d by blast
qed

lemma filter_in_range_blocked:
  "filter (\<lambda>w. project w = p \<and> status w = ''blocked'') (filter (in_range s e) ws)
     = filter (\<lambda>w. in_range s e w \<and> project w = p \<and> status w = ''blocked'') ws"
  by (simp add: conj_commute conj_left_commute)

text \<open>
  C7. The project summary has exactly one row for each project with entries in the date
  range and no other row; in each row \<open>taskCount\<close> is the number of those entries,
  \<open>completedTasks\<close> the number of them with status \<open>completed\<close>,
  \<open>completionRate = completedTasks / taskCount * 100\<close>, and the rows are in descending
  order of \<open>totalHours\<close>.
\<close>

theorem project_summary_rate_and_order:
  "\<exists>summary.
     getProjectSummary ws \<lparr>pq_startDate = Some s, pq_endDate = Some e\<rparr>
       = Response 200 (Data summary)
     \<and> (\<forall>r \<in> set summary.
           ps_taskCount r
             = length (filter (\<lambda>w. in_range s e w \<and> project w = ps_project r) ws)
         \<and> ps_completedTasks r
             = length (filter (\<lambda>w. in_range s e w \<and> project w = ps_project r
                                   \<and> status w = ''completed'') ws)
         \<and> ps_totalHours r
             = sum_list (map hoursSpent
                 (filter (\<lambda>w. in_range s e w \<and> project w = ps_project r) ws))
         \<and> ps_taskCount r \<noteq> 0
         \<and> ps_completionRate r = real (ps_completedTasks r) / real (ps_taskCount r) * 100)
     \<and> sorted_wrt (\<lambda>a b. ps_totalHours b \<le> ps_totalHours a) summary
     \<and> distinct (map ps_project summary)
     \<and> set (map ps_project summary) = project ` {w \<in> set ws. in_range s e w}"
proof -
  let ?M = "filter (in_range s e) ws"
  let ?S = "sort_key (\<lambda>g. - ps_totalHours g)
       (map summarize (foldl (\<lambda>gs w. add_project w gs) [] ?M))"
  have rows: "\<forall>r \<in> set ?S.
           ps_taskCount r
             = length (filter (\<lambda>w. in_range s e w \<and> project w = ps_project r) ws)
         \<and> ps_completedTasks r
             = length (filter (\<lambda>w. in_range s e w \<and> project w = ps_project r
                                   \<and> status w = ''completed'') ws)
         \<and> ps_totalHours r
             = sum_list (map hoursSpent
                 (filter (\<lambda>w. in_range s e w \<and> project w = ps_project r) ws))
         \<and> ps_taskCount r \<noteq> 0
         \<and> ps_completionRate r = real (ps_completedTasks r) / real (ps_taskCount r) * 100"
  proof
    fix r assume "r \<in> set ?S"
    from summary_row[OF this] obtain g where r: "r = summarize g"
      and g: "group_of ?M (pj_id g) = g" and pos: "1 \<le> pj_taskCount g"
      by blast
    have c1: "pj_taskCount (group_of ?M (pj_id g))
                = length (filter (\<lambda>w. in_range s e w \<and> project w = pj_id g) ws)"
      by (simp add: group_of_def filter_in_range_project del: filter_filter)
    have c2: "pj_completedTasks (group_of ?M (pj_id g))
                = length (filter (\<lambda>w. in_range s e w \<and> project w = pj_id g
                                      \<and> status w = ''completed'') ws)"
      by (simp add: group_of_def filter_in_range_completed del: filter_filter)
    have c3: "pj_totalHours (group_of ?M (pj_id g))
                = sum_list (map hoursSpent
                    (filter (\<lambda>w. in_range s e w \<and> project w = pj_id g) ws))"
      by (simp add: group_of_def filter_in_range_project del: filter_filter)
    from pos have nz: "ps_taskCount r \<noteq> 0" by (simp add: r summarize_def)
    have rate: "ps_completionRate r = real (ps_completedTasks r) / real (ps_taskCount r) * 100"
      by (simp add: r summarize_def)
    from c1 c2 c3 have "ps_taskCount r
             = length (filter (\<lambda>w. in_range s e w \<and> project w = ps_project r) ws)
         \<and> ps_completedTasks r
             = length (filter (\<lambda>w. in_range s e w \<and> project w = ps_project r
                                   \<and> status w = ''completed'') ws)
         \<and> ps_totalHours r
             = sum_list (map hoursSpent
                 (filter (\<lambda>w. in_range s e w \<and> project w = ps_project r) ws))"
      unfolding r g by (simp add: summarize_def)
    with nz rate show "ps_taskCount r
             = length (filter (\<lambda>w. in_range s e w \<and> project w = ps_project r) ws)
         \<and> ps_completedTasks r
             = length (filter (\<lambda>w. in_range s e w \<and> project w = ps_project r
                                   \<and> status w = ''completed'') ws)
         \<and> ps_totalHours r
             = sum_list (map hoursSpent
                 (filter (\<lambda>w. in_range s e w \<and> project w = ps_project r) ws))
         \<and> ps_taskCount r \<noteq> 0
         \<and> ps_completionRate r = real (ps_completedTasks r) / real (ps_taskCount r) * 100"
      by blast
  qed
  have "sorted (map (\<lambda>g. - ps_totalHours g) ?S)"
    by (rule sorted_sort_key)
  then have "sorted_wrt (\<lambda>a b. ps_totalHours b \<le> ps_totalHours a) ?S"
    by (simp add: sorted_map)
  with rows getProjectSummary_result[of ws s e] summary_projects[of s e ws]
  show ?thesis by blast
qed

lemma sample_summary:
  "getProjectSummary sample_entries \<lparr>pq_startDate = Some 0, pq_endDate = Some 100\<rparr> =
     Response 200 (Data
       [\<lparr>ps_id = ''Mobile App'', ps_project = ''Mobile App'', ps_totalHours = 8,
         ps_taskCount = 1, ps_completedTasks = 1, ps_blockedTasks = 0,
         ps_completionRate = 100\<rparr>,
        \<lparr>ps_id = ''Backend API'', ps_project = ''Backend API'', ps_totalHours = 6,
         ps_taskCount = 2, ps_completedTasks = 1, ps_blockedTasks = 0,
         ps_completionRate = 50\<rparr>])"
  by (simp add: getProjectSummary_def sample_entries_def entry_def in_range_def
      project_stage_def divide_op_def)

theorem project_summary_no_zero_division_witness:
  "getProjectSummary sample_entries \<lparr>pq_startDate = Some 0, pq_endDate = Some 100\<rparr> =
     Response 200 (Data
       [\<lparr>ps_id = ''Mobile App'', ps_project = ''Mobile App'', ps_totalHours = 8,
         ps_taskCount = 1, ps_completedTasks = 1, ps_blockedTasks = 0,
         ps_completionRate = 100\<rparr>,
        \<lparr>ps_id = ''Backend API'', ps_project = ''Backend API'', ps_totalHours = 6,
         ps_taskCount = 2, ps_completedTasks = 1, ps_blockedTasks = 0,
         ps_completionRate = 50\<rparr>])
   \<and> 1 \<le> ps_taskCount \<lparr>ps_id = ''Backend API'', ps_project = ''Backend API'',
         ps_totalHours = 6, ps_taskCount = 2, ps_completedTasks = 1, ps_blockedTasks = 0,
         ps_completionRate = 50::real\<rparr>
   \<and> (\<exists>w \<in> set sample_entries. in_range 0 100 w \<and> project w = ''Backend API'')"
proof -
  from project_summary_no_zero_division[of 0 100 sample_entries]
  obtain summary where
    a: "getProjectSummary sample_entries \<lparr>pq_startDate = Some 0, pq_endDate = Some 100\<rparr>
          = Response 200 (Data summary)"
    and b: "\<forall>r \<in> set summary. 1 \<le> ps_taskCount r
          \<and> (\<exists>w \<in> set sample_entries. in_range 0 100 w \<and> project w = ps_project r)"
    by blast
  from a have "summary =
       [\<lparr>ps_id = ''Mobile App'', ps_project = ''Mobile App'', ps_totalHours = 8,
         ps_taskCount = 1, ps_completedTasks = 1, ps_blockedTasks = 0,
         ps_completionRate = 100\<rparr>,
        \<lparr>ps_id = ''Backend API'', ps_project = ''Backend API'', ps_totalHours = 6,
         ps_taskCount = 2, ps_completedTasks = 1, ps_blockedTasks = 0,
         ps_completionRate = 50\<rparr>]"
    unfolding sample_summary by simp
  with b have "1 \<le> ps_taskCount \<lparr>ps_id = ''Backend API'', ps_project = ''Backend API'',
         ps_totalHours = 6, ps_taskCount = 2, ps_completedTasks = 1, ps_blockedTasks = 0,
         ps_completionRate = 50::real\<rparr>
     \<and> (\<exists>w \<in> set sample_entries. in_range 0 100 w \<and> project w = ''Backend API'')"
    by simp
  with sample_summary show ?thesis by blast
qed

theorem project_summary_rate_and_order_witness:
  "getProjectSummary sample_entries \<lparr>pq_startDate = Some 0, pq_endDate = Some 100\<rparr> =
     Response 200 (Data
       [\<lparr>ps_id = ''Mobile App'', ps_project = ''Mobile App'', ps_totalHours = 8,
         ps_taskCount = 1, ps_completedTasks = 1, ps_blockedTasks = 0,
         ps_completionRate = 100\<rparr>,
        \<lparr>ps_id = ''Backend API'', ps_project = ''Backend API'', ps_totalHours = 6,
         ps_taskCount = 2, ps_completedTasks = 1, ps_blockedTasks = 0,
         ps_completionRate = 50\<rparr>])
   \<and> length (filter (\<lambda>w. in_range 0 100 w \<and> project w = ''Backend API'') sample_entries) = 2
   \<and> length (filter (\<lambda>w. in_range 0 100 w \<and> project w = ''Backend API''
                         \<and> status w = ''completed'') sample_entries) = 1
   \<and> (50::real) = real 1 / real 2 * 100
   \<and> sorted_wrt (\<lambda>a b. ps_totalHours b \<le> ps_totalHours a)
       [\<lparr>ps_id = ''Mobile App'', ps_project = ''Mobile App'', ps_totalHours = 8,
         ps_taskCount = 1, ps_completedTasks = 1, ps_blockedTasks = 0,
         ps_completionRate = 100\<rparr>,
        \<lparr>ps_id = ''Backend API'', ps_project = ''Backend API'', ps_totalHours = 6,
         ps_taskCount = 2, ps_completedTasks = 1, ps_blockedTasks = 0,
         ps_completionRate = 50::real\<rparr>]
   \<and> set [''Mobile App'', ''Backend API'']
       = project ` {w \<in> set sample_entries. in_range 0 100 w}"
proof -
  let ?rows = "[\<lparr>ps_id = ''Mobile App'', ps_project = ''Mobile App'', ps_totalHours = 8,
         ps_taskCount = 1, ps_completedTasks = 1, ps_blockedTasks = 0,
         ps_completionRate = 100\<rparr>,
        \<lparr>ps_id = ''Backend API'', ps_project = ''Backend API'', ps_totalHours = 6,
         ps_taskCount = 2, ps_completedTasks = 1, ps_blockedTasks = 0,
         ps_completionRate = 50::real\<rparr>]"
  from project_summary_rate_and_order[of sample_entries 0 100]
  obtain summary where
    a: "getProjectSummary sample_entries \<lparr>pq_startDate = Some 0, pq_endDate = Some 100\<rparr>
          = Response 200 (Data summary)"
    and b: "\<forall>r \<in> set summary.
        ps_taskCount r
          = length (filter (\<lambda>w. in_range 0 100 w \<and> project w = ps_project r) sample_entries)
      \<and> ps_completedTasks r
          = length (filter (\<lambda>w. in_range 0 100 w \<and> project w = ps_project r
                                \<and> status w = ''completed'') sample_entries)
      \<and> ps_completionRate r = real (ps_completedTasks r) / real (ps_taskCount r) * 100"
    and c: "sorted_wrt (\<lambda>a b. ps_totalHours b \<le> ps_totalHours a) summary"
    and d: "set (map ps_project summary) = project ` {w \<in> set sample_entries. in_range 0 100 w}"
    by blast
  from a have s: "summary = ?rows"
    unfolding sample_summary by simp
  from b have "length (filter (\<lambda>w. in_range 0 100 w \<and> project w = ''Backend API'') sample_entries) = 2
   \<and> length (filter (\<lambda>w. in_range 0 100 w \<and> project w = ''Backend API''
                         \<and> status w = ''completed'') sample_entries) = 1
   \<and> (50::real) = real 1 / real 2 * 100"
    unfolding s by simp
  moreover from d have "set [''Mobile App'', ''Backend API'']
       = project ` {w \<in> set sample_entries. in_range 0 100 w}"
    unfolding s by simp
  ultimately show ?thesis using c sample_summary unfolding s by blast
qed

subsection \<open>Listing entries\<close>

lemma workloads_filter_developer:
  "role reqUser \<noteq> ''admin'' \<Longrightarrow> f_developer (workloads_filter reqUser q) = Some (uid reqUser)"
  by (simp add: workloads_filter_def Let_def split: option.splits prod.splits)

lemma matches_owner: "f_developer f = Some d \<Longrightarrow> matches f w \<Longrightarrow> developer w = d"
  by (simp add: matches_def)

lemma matches_requested:
  "matches (workloads_filter reqUser q) w \<Longrightarrow> matches (requested reqUser q) w"
  by (simp add: matches_def requested_def)

lemma skip_limit_subset: "skip_limit k l xs = Some ys \<Longrightarrow> set ys \<subseteq> set xs"
  by (auto simp: skip_limit_def Let_def split: if_splits dest: in_set_takeD in_set_dropD)

lemma skip_limit_nonneg:
  "0 \<le> k \<Longrightarrow> 1 \<le> l \<Longrightarrow> skip_limit k l xs = Some (take l (drop (nat k) xs))"
  by (simp add: skip_limit_def)

lemma skip_limit_page:
  assumes p: "1 \<le> p" and l: "1 \<le> l"
  shows "skip_limit ((int p - 1) * int l) l xs = Some (take l (drop ((p - 1) * l) xs))"
proof -
  from p have e: "int p - 1 = int (p - 1)" by linarith
  have m: "(int p - 1) * int l = int ((p - 1) * l)"
    unfolding e by (simp only: of_nat_mult)
  have n: "nat (int ((p - 1) * l)) = (p - 1) * l" by (rule nat_int)
  have "0 \<le> int ((p - 1) * l)" by (rule of_nat_0_le_iff)
  from skip_limit_nonneg[OF this l, of xs] show ?thesis
    unfolding m n .
qed

lemma ceil_div_int:
  fixes a b :: int
  assumes "0 < b"
  shows "- (- a div b) = (a + b - 1) div b"
proof (cases "a mod b = 0")
  case True
  from assms have nz: "b \<noteq> 0" by simp
  from True mult_div_mod_eq[of b a] have e: "a + b - 1 = (b - 1) + b * (a div b)"
    by linarith
  have "(a + b - 1) div b = a div b + (b - 1) div b"
    unfolding e by (rule div_mult_self2[OF nz])
  moreover from assms have "(b - 1) div b = 0" by simp
  moreover from True nz have "- a div b = - (a div b)"
    by (simp add: zdiv_zminus1_eq_if)
  ultimately show ?thesis by simp
next
  case False
  from assms have nz: "b \<noteq> 0" by simp
  from assms have "0 \<le> a mod b" "a mod b < b" by simp_all
  with False have r: "0 \<le> a mod b - 1" "a mod b - 1 < b" by simp_all
  have "b * (a div b + 1) = b * (a div b) + b" by (simp add: algebra_simps)
  with mult_div_mod_eq[of b a] have e: "a + b - 1 = (a mod b - 1) + b * (a div b + 1)"
    by linarith
  have "(a + b - 1) div b = (a div b + 1) + (a mod b - 1) div b"
    unfolding e by (rule div_mult_self2[OF nz])
  moreover from r have "(a mod b - 1) div b = 0" by simp
  moreover from False nz have "- a div b = - (a div b) - 1"
    by (simp add: zdiv_zminus1_eq_if)
  ultimately show ?thesis by simp
qed

lemma page_count_div: "0 < l \<Longrightarrow> page_count n l = Some ((n + l - 1) div l)"
proof -
  assume l: "0 < l"
  have "\<lceil>real n / real l\<rceil> = \<lceil>(of_int (int n) :: real) / of_int (int l)\<rceil>" by simp
  also have "\<dots> = - (- int n div int l)" by (rule ceiling_divide_eq_div)
  also from l have "\<dots> = (int n + int l - 1) div int l" by (simp add: ceil_div_int)
  also from l have "\<dots> = int ((n + l - 1) div l)"
    by (simp add: zdiv_int of_nat_diff)
  finally show ?thesis using l by (simp add: page_count_def)
qed

lemma getWorkloads_unfold:
  "getWorkloads ws reqUser q =
     (case skip_limit ((int (page_of q) - 1) * int (limit_of q)) (limit_of q)
             (ordered_matches ws reqUser q) of
        None \<Rightarrow> Response 500 (ErrorMsg ''Error fetching workload data'')
      | Some workloads \<Rightarrow>
          Response 200
            (Data \<lparr>lst_items = workloads,
                   lst_total = length (filter (matches (workloads_filter reqUser q)) ws),
                   lst_page = page_of q,
                   lst_pages = page_count (length (filter (matches (workloads_filter reqUser q)) ws))
                                 (limit_of q)\<rparr>))"
  unfolding getWorkloads_def ordered_matches_def page_of_def limit_of_def countDocuments_def
    Let_def
  by (rule refl)

lemma set_ordered_matches:
  "set (ordered_matches ws reqUser q) = {w \<in> set ws. matches (workloads_filter reqUser q) w}"
  by (simp add: ordered_matches_def)

lemma getWorkloads_items:
  assumes "getWorkloads ws reqUser q = Response 200 (Data l)"
  shows "set (lst_items l) \<subseteq> {w \<in> set ws. matches (workloads_filter reqUser q) w}"
proof (cases "skip_limit ((int (page_of q) - 1) * int (limit_of q)) (limit_of q)
       (ordered_matches ws reqUser q)")
  case None
  with assms show ?thesis by (simp add: getWorkloads_unfold)
next
  case (Some ys)
  with assms have "lst_items l = ys" by (auto simp: getWorkloads_unfold)
  with skip_limit_subset[OF Some] show ?thesis
    by (simp add: set_ordered_matches)
qed

text \<open>
  C6. A list request by a non-administrator: whatever filters and paging it asks for,
  every entry of the returned page is a stored entry owned by the caller that matches the
  requested filters. When the caller owns no entry matching the requested filters (other
  users' entries may match), the reply with page number \<open>\<ge> 1\<close> is 200 with an empty list
  and total 0, and no reply lists an entry.
\<close>

theorem getWorkloads_only_own:
  assumes "role reqUser \<noteq> ''admin''"
  shows "(\<forall>l. getWorkloads ws reqUser q = Response 200 (Data l) \<longrightarrow>
            (\<forall>w \<in> set (lst_items l).
               developer w = uid reqUser \<and> w \<in> set ws \<and> matches (requested reqUser q) w))
       \<and> ((\<forall>w \<in> set ws. developer w = uid reqUser \<longrightarrow> \<not> matches (requested reqUser q) w) \<longrightarrow>
            (\<forall>l. getWorkloads ws reqUser q = Response 200 (Data l) \<longrightarrow> lst_items l = [])
          \<and> (1 \<le> page_of q \<longrightarrow>
               getWorkloads ws reqUser q =
                 Response 200 (Data \<lparr>lst_items = [], lst_total = 0, lst_page = page_of q,
                                      lst_pages = page_count 0 (limit_of q)\<rparr>)))"
proof (intro conjI allI impI ballI)
  fix l w
  assume r: "getWorkloads ws reqUser q = Response 200 (Data l)" and w: "w \<in> set (lst_items l)"
  from getWorkloads_items[OF r] w
  have m: "matches (workloads_filter reqUser q) w" and "w \<in> set ws" by auto
  from matches_owner[OF workloads_filter_developer[OF assms] m] matches_requested[OF m]
    \<open>w \<in> set ws\<close>
  show "developer w = uid reqUser" and "w \<in> set ws" and "matches (requested reqUser q) w"
    by simp_all
next
  assume none: "\<forall>w \<in> set ws. developer w = uid reqUser \<longrightarrow> \<not> matches (requested reqUser q) w"
  have empty: "filter (matches (workloads_filter reqUser q)) ws = []"
  proof (simp only: filter_empty_conv, intro ballI notI)
    fix w assume "w \<in> set ws" and m: "matches (workloads_filter reqUser q) w"
    with none matches_owner[OF workloads_filter_developer[OF assms] m] matches_requested[OF m]
    show False by blast
  qed
  {
    fix l assume r: "getWorkloads ws reqUser q = Response 200 (Data l)"
    from getWorkloads_items[OF r] empty show "lst_items l = []"
      by (cases "lst_items l") (auto simp: filter_empty_conv)
  }
  {
    assume p: "1 \<le> page_of q"
    from empty have o: "ordered_matches ws reqUser q = []"
      by (simp add: ordered_matches_def)
    from p have "0 \<le> int (page_of q) - 1" by simp
    then have "0 \<le> (int (page_of q) - 1) * int (limit_of q)"
      by (rule mult_nonneg_nonneg) simp
    then have "\<not> (int (page_of q) - 1) * int (limit_of q) < 0" by simp
    then have sl: "skip_limit ((int (page_of q) - 1) * int (limit_of q)) (limit_of q) [] = Some []"
      by (simp add: skip_limit_def)
    show "getWorkloads ws reqUser q =
                 Response 200 (Data \<lparr>lst_items = [], lst_total = 0, lst_page = page_of q,
                                      lst_pages = page_count 0 (limit_of q)\<rparr>)"
      by (simp only: getWorkloads_unfold o empty sl option.case list.size)
  }
qed

theorem getWorkloads_only_own_witness:
  "role seed_dev2 \<noteq> ''admin''
   \<and> filter (\<lambda>w. developer w = uid seed_dev2 \<and> matches (requested seed_dev2 backend_query) w)
        sample_entries = []
   \<and> (\<exists>w \<in> set sample_entries. matches (requested seed_dev2 backend_query) w)
   \<and> 1 \<le> page_of backend_query
   \<and> getWorkloads sample_entries seed_dev2 backend_query =
        Response 200 (Data \<lparr>lst_items = [], lst_total = 0, lst_page = 1, lst_pages = Some 0\<rparr>)
   \<and> getWorkloads sample_entries seed_dev1 backend_query =
        Response 200 (Data \<lparr>lst_items = [entry ''e2'' ''01'' ''Backend API'' 2 12 ''planned'',
                                          entry ''e1'' ''01'' ''Backend API'' 4 10 ''completed''],
                             lst_total = 2, lst_page = 1, lst_pages = Some 1\<rparr>)
   \<and> map developer [entry ''e2'' ''01'' ''Backend API'' 2 12 ''planned'',
                     entry ''e1'' ''01'' ''Backend API'' 4 10 ''completed'']
       = [uid seed_dev1, uid seed_dev1]"
proof -
  have h1: "role seed_dev2 \<noteq> ''admin''" by (simp add: seed_dev2_def)
  have h1': "role seed_dev1 \<noteq> ''admin''" by (simp add: seed_dev1_def)
  have h2': "filter (\<lambda>w. developer w = uid seed_dev2 \<and> matches (requested seed_dev2 backend_query) w)
        sample_entries = []"
    by (simp add: sample_entries_def entry_def seed_dev2_def requested_def backend_query_def
        workloads_filter_def matches_def truthy_def)
  then have h2: "\<forall>w \<in> set sample_entries.
         developer w = uid seed_dev2 \<longrightarrow> \<not> matches (requested seed_dev2 backend_query) w"
    by (simp add: filter_empty_conv)
  have h3: "\<exists>w \<in> set sample_entries. matches (requested seed_dev2 backend_query) w"
    by (simp add: sample_entries_def entry_def seed_dev2_def requested_def backend_query_def
        workloads_filter_def matches_def truthy_def)
  have h4: "1 \<le> page_of backend_query" by (simp add: page_of_def backend_query_def)
  have pc: "page_of backend_query = 1" "page_count 0 (limit_of backend_query) = Some 0"
    by (simp_all add: page_of_def limit_of_def page_count_def backend_query_def)
  from getWorkloads_only_own[OF h1, of sample_entries backend_query] h2 h4
  have a: "getWorkloads sample_entries seed_dev2 backend_query =
        Response 200 (Data \<lparr>lst_items = [], lst_total = 0, lst_page = page_of backend_query,
                             lst_pages = page_count 0 (limit_of backend_query)\<rparr>)"
    by blast
  have ev: "getWorkloads sample_entries seed_dev1 backend_query =
        Response 200 (Data \<lparr>lst_items = [entry ''e2'' ''01'' ''Backend API'' 2 12 ''planned'',
                                          entry ''e1'' ''01'' ''Backend API'' 4 10 ''completed''],
                             lst_total = 2, lst_page = 1, lst_pages = Some 1\<rparr>)"
    by (simp add: getWorkloads_def sample_entries_def entry_def seed_dev1_def backend_query_def
        workloads_filter_def matches_def truthy_def skip_limit_def page_count_div
        countDocuments_def)
  from getWorkloads_only_own[OF h1', of sample_entries backend_query] ev
  have "\<forall>w \<in> set [entry ''e2'' ''01'' ''Backend API'' 2 12 ''planned'',
                  entry ''e1'' ''01'' ''Backend API'' 4 10 ''completed''].
         developer w = uid seed_dev1"
    by (metis listing.select_convs(1))
  then have b: "map developer [entry ''e2'' ''01'' ''Backend API'' 2 12 ''planned'',
                     entry ''e1'' ''01'' ''Backend API'' 4 10 ''completed'']
       = [uid seed_dev1, uid seed_dev1]"
    by simp
  from h1 h2' h3 h4 a ev b show ?thesis unfolding pc by blast
qed

subsection \<open>Paging\<close>

lemma length_ordered_matches:
  "length (ordered_matches ws reqUser q) = length (filter (matches (workloads_filter reqUser q)) ws)"
  by (simp add: ordered_matches_def)

lemma sorted_ordered_matches:
  "sorted_wrt (\<lambda>a b. date b \<le> date a) (ordered_matches ws reqUser q)"
proof -
  have "sorted (map (\<lambda>w. - date w) (ordered_matches ws reqUser q))"
    unfolding ordered_matches_def by (rule sorted_sort_key)
  then show ?thesis by (simp add: sorted_map)
qed

lemma getWorkloads_page:
  assumes "1 \<le> page_of q" and "1 \<le> limit_of q"
  shows "getWorkloads ws reqUser q =
     Response 200
       (Data \<lparr>lst_items = page_items ws reqUser q,
              lst_total = length (ordered_matches ws reqUser q),
              lst_page = page_of q,
              lst_pages = Some (nat \<lceil>real (length (ordered_matches ws reqUser q))
                                      / real (limit_of q)\<rceil>)\<rparr>)"
proof -
  from assms(2) have "page_count (length (ordered_matches ws reqUser q)) (limit_of q)
      = Some (nat \<lceil>real (length (ordered_matches ws reqUser q)) / real (limit_of q)\<rceil>)"
    by (simp add: page_count_def)
  with skip_limit_page[OF assms, of "ordered_matches ws reqUser q"] show ?thesis
    by (simp only: getWorkloads_unfold option.case page_items_def
        length_ordered_matches[symmetric])
qed

lemma page_items_nth:
  assumes "i < length (page_items ws reqUser q)"
  shows "page_items ws reqUser q ! i
           = ordered_matches ws reqUser q ! ((page_of q - 1) * limit_of q + i)"
proof -
  from assms have a: "i < limit_of q"
    and b: "i < length (ordered_matches ws reqUser q) - (page_of q - 1) * limit_of q"
    by (simp_all add: page_items_def)
  from b have "(page_of q - 1) * limit_of q + i < length (ordered_matches ws reqUser q)"
    by linarith
  with a show ?thesis by (simp add: page_items_def)
qed

lemma length_page_items:
  "length (page_items ws reqUser q)
     = min (limit_of q) (length (ordered_matches ws reqUser q) - (page_of q - 1) * limit_of q)"
  by (simp add: page_items_def min.commute)

lemma fifteen_by_ten:
  assumes "length (ordered_matches ws reqUser q) = 15" and "limit_of q = 10"
  shows "nat \<lceil>real (length (ordered_matches ws reqUser q)) / real (limit_of q)\<rceil> = 2"
    and "page_of q = 1 \<Longrightarrow> page_items ws reqUser q = take 10 (ordered_matches ws reqUser q)"
    and "page_of q = 1 \<Longrightarrow> length (page_items ws reqUser q) = 10"
    and "page_of q = 2 \<Longrightarrow> page_items ws reqUser q = drop 10 (ordered_matches ws reqUser q)"
    and "page_of q = 2 \<Longrightarrow> length (page_items ws reqUser q) = 5"
proof -
  show "nat \<lceil>real (length (ordered_matches ws reqUser q)) / real (limit_of q)\<rceil> = 2"
    unfolding assms by simp
  show "page_of q = 1 \<Longrightarrow> page_items ws reqUser q = take 10 (ordered_matches ws reqUser q)"
    by (simp add: page_items_def assms(2))
  show "page_of q = 1 \<Longrightarrow> length (page_items ws reqUser q) = 10"
    by (simp add: page_items_def assms)
  show "page_of q = 2 \<Longrightarrow> page_items ws reqUser q = drop 10 (ordered_matches ws reqUser q)"
    by (simp add: page_items_def assms)
  show "page_of q = 2 \<Longrightarrow> length (page_items ws reqUser q) = 5"
    by (simp add: page_items_def assms)
qed

text \<open>
  C8, as the code has it. A zero page size is not rejected: the store then applies no
  limit at all and \<^verbatim>\<open>Math.ceil(total / 0)\<close> is not a finite number, so the reply
  carries every matching entry and \<^verbatim>\<open>pages: null\<close>, while the page the claim describes
  (offsets \<open>(p - 1) * 0\<close> through \<open>p * 0 - 1\<close>) is empty.
\<close>

theorem getWorkloads_limit_zero_counterexample:
  "getWorkloads sample_entries seed_dev1 limit_zero_query =
     Response 200
       (Data \<lparr>lst_items = [entry ''e2'' ''01'' ''Backend API'' 2 12 ''planned'',
                           entry ''e1'' ''01'' ''Backend API'' 4 10 ''completed''],
              lst_total = 2, lst_page = 1, lst_pages = None\<rparr>)
   \<and> page_items sample_entries seed_dev1 limit_zero_query = []"
  by (simp add: getWorkloads_def sample_entries_def entry_def seed_dev1_def limit_zero_query_def
      workloads_filter_def matches_def truthy_def skip_limit_def page_count_def
      countDocuments_def page_items_def limit_of_def page_of_def ordered_matches_def)

text \<open>
  C8, amended. For a list request with page number \<open>\<ge> 1\<close> and page size \<open>\<ge> 1\<close> (1 and 10
  when not given) the reply is 200; \<open>pagination.pages\<close> is \<open>ceil(total / limit)\<close>; the
  matching entries are ordered by date descending and the page holds those at offsets
  \<open>(p - 1) * limit\<close> through \<open>p * limit - 1\<close> of that order. With 15 matching entries and
  page size 10 there are 2 pages: page 1 is the first 10 entries, page 2 the other 5.
\<close>

theorem getWorkloads_paging:
  assumes "1 \<le> page_of q" and "1 \<le> limit_of q"
  shows "getWorkloads ws reqUser q =
           Response 200
             (Data \<lparr>lst_items = page_items ws reqUser q,
                    lst_total = length (ordered_matches ws reqUser q),
                    lst_page = page_of q,
                    lst_pages = Some (nat \<lceil>real (length (ordered_matches ws reqUser q))
                                            / real (limit_of q)\<rceil>)\<rparr>)
       \<and> (wq_page q = None \<longrightarrow> page_of q = 1) \<and> (wq_limit q = None \<longrightarrow> limit_of q = 10)
       \<and> sorted_wrt (\<lambda>a b. date b \<le> date a) (ordered_matches ws reqUser q)
       \<and> set (ordered_matches ws reqUser q)
           = {w \<in> set ws. matches (workloads_filter reqUser q) w}
       \<and> length (ordered_matches ws reqUser q)
           = length (filter (matches (workloads_filter reqUser q)) ws)
       \<and> length (page_items ws reqUser q)
           = min (limit_of q)
               (length (ordered_matches ws reqUser q) - (page_of q - 1) * limit_of q)
       \<and> (\<forall>i < length (page_items ws reqUser q).
             page_items ws reqUser q ! i
               = ordered_matches ws reqUser q ! ((page_of q - 1) * limit_of q + i))
       \<and> (length (ordered_matches ws reqUser q) = 15 \<and> limit_of q = 10 \<longrightarrow>
             nat \<lceil>real (length (ordered_matches ws reqUser q)) / real (limit_of q)\<rceil> = 2
           \<and> (page_of q = 1 \<longrightarrow>
                 page_items ws reqUser q = take 10 (ordered_matches ws reqUser q)
               \<and> length (page_items ws reqUser q) = 10)
           \<and> (page_of q = 2 \<longrightarrow>
                 page_items ws reqUser q = drop 10 (ordered_matches ws reqUser q)
               \<and> length (page_items ws reqUser q) = 5))"
proof -
  note r = getWorkloads_page[OF assms, of ws reqUser]
  have d: "(wq_page q = None \<longrightarrow> page_of q = 1) \<and> (wq_limit q = None \<longrightarrow> limit_of q = 10)"
    by (simp add: page_of_def limit_of_def)
  note s = sorted_ordered_matches[of ws reqUser q]
  note m = set_ordered_matches[of ws reqUser q]
  note l = length_ordered_matches[of ws reqUser q]
  note lp = length_page_items[of ws reqUser q]
  have n: "\<forall>i < length (page_items ws reqUser q).
             page_items ws reqUser q ! i
               = ordered_matches ws reqUser q ! ((page_of q - 1) * limit_of q + i)"
    using page_items_nth by blast
  have f: "length (ordered_matches ws reqUser q) = 15 \<and> limit_of q = 10 \<longrightarrow>
             nat \<lceil>real (length (ordered_matches ws reqUser q)) / real (limit_of q)\<rceil> = 2
           \<and> (page_of q = 1 \<longrightarrow>
                 page_items ws reqUser q = take 10 (ordered_matches ws reqUser q)
               \<and> length (page_items ws reqUser q) = 10)
           \<and> (page_of q = 2 \<longrightarrow>
                 page_items ws reqUser q = drop 10 (ordered_matches ws reqUser q)
               \<and> length (page_items ws reqUser q) = 5)"
    using fifteen_by_ten[of ws reqUser q] by blast
  from r d s m l lp n f show ?thesis by blast
qed

lemma fifteen_matches:
  "length (ordered_matches fifteen_entries seed_dev1 second_page_query) = 15"
  by (simp add: length_ordered_matches fifteen_entries_def entry_def seed_dev1_def
      second_page_query_def workloads_filter_def matches_def truthy_def)

theorem getWorkloads_paging_witness:
  "1 \<le> page_of second_page_query \<and> 1 \<le> limit_of second_page_query
   \<and> length (ordered_matches fifteen_entries seed_dev1 second_page_query) = 15
   \<and> limit_of second_page_query = 10 \<and> page_of second_page_query = 2
   \<and> getWorkloads fifteen_entries seed_dev1 second_page_query =
        Response 200
          (Data \<lparr>lst_items = drop 10 (ordered_matches fifteen_entries seed_dev1 second_page_query),
                 lst_total = 15, lst_page = 2, lst_pages = Some 2\<rparr>)
   \<and> length (drop 10 (ordered_matches fifteen_entries seed_dev1 second_page_query)) = 5"
proof -
  have p: "page_of second_page_query = 2" and l: "limit_of second_page_query = 10"
    by (simp_all add: page_of_def limit_of_def second_page_query_def)
  have h1: "1 \<le> page_of second_page_query" and h2: "1 \<le> limit_of second_page_query"
    by (simp_all add: p l)
  note t = getWorkloads_paging[OF h1 h2, of fifteen_entries seed_dev1]
  from t fifteen_matches l p
  have a: "nat \<lceil>real (length (ordered_matches fifteen_entries seed_dev1 second_page_query))
                 / real (limit_of second_page_query)\<rceil> = 2"
    and b: "page_items fifteen_entries seed_dev1 second_page_query
              = drop 10 (ordered_matches fifteen_entries seed_dev1 second_page_query)"
    and c: "length (page_items fifteen_entries seed_dev1 second_page_query) = 5"
    by blast+
  from t have "getWorkloads fifteen_entries seed_dev1 second_page_query =
           Response 200
             (Data \<lparr>lst_items = page_items fifteen_entries seed_dev1 second_page_query,
                    lst_total = length (ordered_matches fifteen_entries seed_dev1 second_page_query),
                    lst_page = page_of second_page_query,
                    lst_pages = Some (nat \<lceil>real (length (ordered_matches fifteen_entries
                                                        seed_dev1 second_page_query))
                                            / real (limit_of second_page_query)\<rceil>)\<rparr>)"
    by blast
  then have "getWorkloads fifteen_entries seed_dev1 second_page_query =
        Response 200
          (Data \<lparr>lst_items = drop 10 (ordered_matches fifteen_entries seed_dev1 second_page_query),
                 lst_total = 15, lst_page = 2, lst_pages = Some 2\<rparr>)"
    unfolding a b unfolding fifteen_matches p .
  with h1 h2 fifteen_matches l p b c show ?thesis by simp
qed

subsection \<open>Workload statistics\<close>

lemma add_pair_developers:
  "pg_developer ` set (add_pair w gs) \<subseteq> insert (developer w) (pg_developer ` set gs)"
  by (induction gs) auto

lemma foldl_add_pair_developers:
  "pg_developer ` set (foldl (\<lambda>gs w. add_pair w gs) gs0 ws)
     \<subseteq> pg_developer ` set gs0 \<union> developer ` set ws"
proof (induction ws arbitrary: gs0)
  case Nil
  show ?case by simp
next
  case (Cons w ws)
  from Cons.IH[of "add_pair w gs0"] add_pair_developers[of w gs0]
  show ?case by auto
qed

lemma add_dev_ids:
  "dg_id ` set (add_dev p gs) \<subseteq> insert (pg_developer p) (dg_id ` set gs)"
  by (induction gs) auto

lemma foldl_add_dev_ids:
  "dg_id ` set (foldl (\<lambda>gs p. add_dev p gs) gs0 ps)
     \<subseteq> dg_id ` set gs0 \<union> pg_developer ` set ps"
proof (induction ps arbitrary: gs0)
  case Nil
  show ?case by simp
next
  case (Cons p ps)
  from Cons.IH[of "add_dev p gs0"] add_dev_ids[of p gs0]
  show ?case by auto
qed

lemma aggregateStats_ids:
  assumes "d \<in> set (aggregateStats us ws s e (Some i))"
  shows "ds_id d = i \<and> uid (ds_developer d) = i \<and> ds_developer d \<in> set us"
proof -
  let ?M = "filter (\<lambda>w. s \<le> date w \<and> date w \<le> e \<and> developer w = i) ws"
  let ?P = "foldl (\<lambda>gs w. add_pair w gs) [] ?M"
  let ?G = "foldl (\<lambda>gs p. add_dev p gs) [] ?P"
  from assms obtain g u where g: "g \<in> set ?G" and u: "u \<in> set us" "uid u = dg_id g"
    and d: "ds_id d = dg_id g" "ds_developer d = u"
    by (auto simp: aggregateStats_def)
  from g foldl_add_dev_ids[of "[]" ?P] have "dg_id g \<in> pg_developer ` set ?P" by auto
  with foldl_add_pair_developers[of "[]" ?M] have "dg_id g \<in> developer ` set ?M" by auto
  then have "dg_id g = i" by auto
  with u d show ?thesis by simp
qed

lemma aggregateStats_own_entries_only:
  "aggregateStats us ws s e (Some i)
     = aggregateStats us (filter (\<lambda>w. developer w = i) ws) s e (Some i)"
proof -
  have "filter (\<lambda>w. s \<le> date w \<and> date w \<le> e \<and> developer w = i) ws
      = filter (\<lambda>w. s \<le> date w \<and> date w \<le> e \<and> developer w = i)
          (filter (\<lambda>w. developer w = i) ws)"
    by (simp add: conj_commute conj_left_commute cong: conj_cong)
  then show ?thesis by (simp add: aggregateStats_def del: filter_filter)
qed

lemma getWorkloadStats_no_dates:
  assumes "sq_startDate q = None \<or> sq_endDate q = None"
  shows "getWorkloadStats us ws reqUser q
           = Response 400 (ErrorMsg ''Start and end dates are required'')"
  using assms by (auto simp: getWorkloadStats_def split: option.splits)

lemma getWorkloadStats_other:
  assumes "role reqUser \<noteq> ''admin''"
    and "sq_startDate q = Some s" and "sq_endDate q = Some e"
    and "truthy (sq_developerId q)" and "sq_developerId q \<noteq> Some (uid reqUser)"
  shows "getWorkloadStats us ws reqUser q = Response 403 (ErrorMsg ''Access denied'')"
  using assms by (simp add: getWorkloadStats_def)

lemma getWorkloadStats_own:
  assumes "role reqUser \<noteq> ''admin''"
    and "sq_startDate q = Some s" and "sq_endDate q = Some e"
    and "\<not> truthy (sq_developerId q) \<or> sq_developerId q = Some (uid reqUser)"
  shows "getWorkloadStats us ws reqUser q =
           (case workloadStats us ws s e (Some (uid reqUser)) of
              None \<Rightarrow> Response 500 (ErrorMsg ''Error fetching workload statistics'')
            | Some stats \<Rightarrow> Response 200 (Data stats))"
  using assms by (auto simp: getWorkloadStats_def)

lemma workloadStats_rows:
  assumes "workloadStats us ws s e (Some i) = Some l"
  shows "\<exists>j. ObjectId i = Some j \<and> l = aggregateStats us ws s e (Some j)"
  using assms by (auto simp: workloadStats_def split: option.splits)

lemma getWorkloadStats_non_admin_rows:
  assumes "role reqUser \<noteq> ''admin''"
    and "getWorkloadStats us ws reqUser q = Response 200 (Data l)"
  shows "\<forall>d \<in> set l. ds_id d = uid reqUser"
proof (cases "sq_startDate q = None \<or> sq_endDate q = None")
  case True
  from getWorkloadStats_no_dates[OF this, of us ws reqUser] assms(2) show ?thesis by simp
next
  case False
  then obtain s e where se: "sq_startDate q = Some s" "sq_endDate q = Some e" by auto
  show ?thesis
  proof (cases "truthy (sq_developerId q) \<and> sq_developerId q \<noteq> Some (uid reqUser)")
    case True
    with getWorkloadStats_other[OF assms(1) se, of us ws] assms(2) show ?thesis by simp
  next
    case False
    then have "\<not> truthy (sq_developerId q) \<or> sq_developerId q = Some (uid reqUser)" by blast
    from getWorkloadStats_own[OF assms(1) se this, of us ws] assms(2)
    have "workloadStats us ws s e (Some (uid reqUser)) = Some l"
      by (cases "workloadStats us ws s e (Some (uid reqUser))") simp_all
    from workloadStats_rows[OF this] show ?thesis
      by (simp add: ObjectId_def)
  qed
qed

text \<open>
  C5, as the code has it. The date range is checked first: a non-administrator naming
  another developer without both dates gets 400, not 403.
\<close>

theorem getWorkloadStats_dates_first_counterexample:
  "getWorkloadStats seed_users sample_entries seed_dev1 other_no_dates_query
     = Response 400 (ErrorMsg ''Start and end dates are required'')"
  by (simp add: getWorkloadStats_def other_no_dates_query_def)

text \<open>
  C5, amended. A workload-statistics request by a non-administrator that lacks either
  date is answered 400, whichever developer it names. With both dates, naming a developer
  other than the caller is answered 403; otherwise the caller's own identifier is the
  developer filter handed to the statistics computation, whose pipeline under that filter
  yields rows of the caller only, computed from the caller's entries only. No reply to a
  non-administrator carries a row of another user.
\<close>

theorem getWorkloadStats_non_admin:
  assumes "role reqUser \<noteq> ''admin''"
  shows "(sq_startDate q = None \<or> sq_endDate q = None \<longrightarrow>
            getWorkloadStats us ws reqUser q
              = Response 400 (ErrorMsg ''Start and end dates are required''))
       \<and> (\<forall>s e. sq_startDate q = Some s \<and> sq_endDate q = Some e \<longrightarrow>
            (truthy (sq_developerId q) \<and> sq_developerId q \<noteq> Some (uid reqUser) \<longrightarrow>
               getWorkloadStats us ws reqUser q = Response 403 (ErrorMsg ''Access denied''))
          \<and> (\<not> truthy (sq_developerId q) \<or> sq_developerId q = Some (uid reqUser) \<longrightarrow>
               getWorkloadStats us ws reqUser q =
                 (case workloadStats us ws s e (Some (uid reqUser)) of
                    None \<Rightarrow> Response 500 (ErrorMsg ''Error fetching workload statistics'')
                  | Some stats \<Rightarrow> Response 200 (Data stats)))
          \<and> (\<forall>d \<in> set (aggregateStats us ws s e (Some (uid reqUser))).
                ds_id d = uid reqUser \<and> uid (ds_developer d) = uid reqUser)
          \<and> aggregateStats us ws s e (Some (uid reqUser))
              = aggregateStats us (filter (\<lambda>w. developer w = uid reqUser) ws) s e
                  (Some (uid reqUser)))
       \<and> (\<forall>l. getWorkloadStats us ws reqUser q = Response 200 (Data l) \<longrightarrow>
             (\<forall>d \<in> set l. ds_id d = uid reqUser))"
proof (intro conjI impI allI ballI)
  assume "sq_startDate q = None \<or> sq_endDate q = None"
  then show "getWorkloadStats us ws reqUser q
              = Response 400 (ErrorMsg ''Start and end dates are required'')"
    by (rule getWorkloadStats_no_dates)
next
  fix s e
  assume "sq_startDate q = Some s \<and> sq_endDate q = Some e"
    and "truthy (sq_developerId q) \<and> sq_developerId q \<noteq> Some (uid reqUser)"
  with assms show "getWorkloadStats us ws reqUser q = Response 403 (ErrorMsg ''Access denied'')"
    by (intro getWorkloadStats_other) simp_all
next
  fix s e
  assume "sq_startDate q = Some s \<and> sq_endDate q = Some e"
    and "\<not> truthy (sq_developerId q) \<or> sq_developerId q = Some (uid reqUser)"
  with assms show "getWorkloadStats us ws reqUser q =
                 (case workloadStats us ws s e (Some (uid reqUser)) of
                    None \<Rightarrow> Response 500 (ErrorMsg ''Error fetching workload statistics'')
                  | Some stats \<Rightarrow> Response 200 (Data stats))"
    by (intro getWorkloadStats_own) simp_all
next
  fix s e d
  assume "d \<in> set (aggregateStats us ws s e (Some (uid reqUser)))"
  from aggregateStats_ids[OF this]
  show "ds_id d = uid reqUser" and "uid (ds_developer d) = uid reqUser" by simp_all
next
  fix s e
  show "aggregateStats us ws s e (Some (uid reqUser))
              = aggregateStats us (filter (\<lambda>w. developer w = uid reqUser) ws) s e
                  (Some (uid reqUser))"
    by (rule aggregateStats_own_entries_only)
next
  fix l d
  assume "getWorkloadStats us ws reqUser q = Response 200 (Data l)" and "d \<in> set l"
  with getWorkloadStats_non_admin_rows[OF assms] show "ds_id d = uid reqUser" by blast
qed

lemma sample_own_pipeline:
  "aggregateStats seed_users sample_entries 0 100 (Some ''01'') =
     [\<lparr>ds_id = ''01'',
       ds_workloadByType = [\<lparr>ts_taskType = ''development'', ts_totalHours = 6, ts_taskCount = 2\<rparr>],
       ds_totalHours = 6, ds_developer = seed_dev1\<rparr>]"
  by (simp add: aggregateStats_def sample_entries_def entry_def seed_users_def seed_admin_def
      seed_dev1_def seed_dev2_def seed_manager_def pushed_def)

lemma sample_own_static: "workloadStats seed_users sample_entries 0 100 (Some ''01'') = None"
  by (simp add: workloadStats_def ObjectId_def)

theorem getWorkloadStats_non_admin_witness:
  "role seed_dev1 \<noteq> ''admin''
   \<and> sq_startDate other_no_dates_query = None
   \<and> getWorkloadStats seed_users sample_entries seed_dev1 other_no_dates_query
       = Response 400 (ErrorMsg ''Start and end dates are required'')
   \<and> sq_startDate other_stats_query = Some 0 \<and> sq_endDate other_stats_query = Some 100
   \<and> truthy (sq_developerId other_stats_query)
   \<and> sq_developerId other_stats_query \<noteq> Some (uid seed_dev1)
   \<and> getWorkloadStats seed_users sample_entries seed_dev1 other_stats_query
       = Response 403 (ErrorMsg ''Access denied'')
   \<and> sq_startDate own_stats_query = Some 0 \<and> sq_endDate own_stats_query = Some 100
   \<and> sq_developerId own_stats_query = Some (uid seed_dev1)
   \<and> getWorkloadStats seed_users sample_entries seed_dev1 own_stats_query
       = Response 500 (ErrorMsg ''Error fetching workload statistics'')
   \<and> aggregateStats seed_users sample_entries 0 100 (Some (uid seed_dev1)) =
        [\<lparr>ds_id = ''01'',
          ds_workloadByType =
            [\<lparr>ts_taskType = ''development'', ts_totalHours = 6, ts_taskCount = 2\<rparr>],
          ds_totalHours = 6, ds_developer = seed_dev1\<rparr>]
   \<and> ds_id \<lparr>ds_id = ''01'',
          ds_workloadByType =
            [\<lparr>ts_taskType = ''development'', ts_totalHours = 6, ts_taskCount = 2\<rparr>],
          ds_totalHours = 6, ds_developer = seed_dev1\<rparr> = uid seed_dev1"
proof -
  have h1: "role seed_dev1 \<noteq> ''admin''" by (simp add: seed_dev1_def)
  have u: "uid seed_dev1 = ''01''" by (simp add: seed_dev1_def)
  have n: "sq_startDate other_no_dates_query = None"
    by (simp add: other_no_dates_query_def)
  have h2: "sq_startDate own_stats_query = Some 0" "sq_endDate own_stats_query = Some 100"
    "sq_developerId own_stats_query = Some (uid seed_dev1)"
    by (simp_all add: own_stats_query_def seed_dev1_def)
  have h3: "sq_startDate other_stats_query = Some 0" "sq_endDate other_stats_query = Some 100"
    "truthy (sq_developerId other_stats_query)"
    "sq_developerId other_stats_query \<noteq> Some (uid seed_dev1)"
    by (simp_all add: other_stats_query_def seed_dev1_def truthy_def)
  from getWorkloadStats_non_admin[OF h1, of other_no_dates_query seed_users sample_entries] n
  have a: "getWorkloadStats seed_users sample_entries seed_dev1 other_no_dates_query
       = Response 400 (ErrorMsg ''Start and end dates are required'')"
    by blast
  from getWorkloadStats_non_admin[OF h1, of other_stats_query seed_users sample_entries] h3
  have b: "getWorkloadStats seed_users sample_entries seed_dev1 other_stats_query
       = Response 403 (ErrorMsg ''Access denied'')"
    by blast
  from getWorkloadStats_non_admin[OF h1, of own_stats_query seed_users sample_entries] h2
  have c: "getWorkloadStats seed_users sample_entries seed_dev1 own_stats_query =
             (case workloadStats seed_users sample_entries 0 100 (Some (uid seed_dev1)) of
                None \<Rightarrow> Response 500 (ErrorMsg ''Error fetching workload statistics'')
              | Some stats \<Rightarrow> Response 200 (Data stats))"
    and d: "\<forall>d \<in> set (aggregateStats seed_users sample_entries 0 100 (Some (uid seed_dev1))).
                ds_id d = uid seed_dev1 \<and> uid (ds_developer d) = uid seed_dev1"
    by blast+
  from c have c': "getWorkloadStats seed_users sample_entries seed_dev1 own_stats_query
       = Response 500 (ErrorMsg ''Error fetching workload statistics'')"
    unfolding u sample_own_static by simp
  have p: "aggregateStats seed_users sample_entries 0 100 (Some (uid seed_dev1)) =
        [\<lparr>ds_id = ''01'',
          ds_workloadByType =
            [\<lparr>ts_taskType = ''development'', ts_totalHours = 6, ts_taskCount = 2\<rparr>],
          ds_totalHours = 6, ds_developer = seed_dev1\<rparr>]"
    unfolding u by (rule sample_own_pipeline)
  from d have r: "ds_id \<lparr>ds_id = ''01'',
          ds_workloadByType =
            [\<lparr>ts_taskType = ''development'', ts_totalHours = 6, ts_taskCount = 2\<rparr>],
          ds_totalHours = 6, ds_developer = seed_dev1\<rparr> = uid seed_dev1"
    unfolding p by simp
  from h1 n a h2 h3 b c' p r show ?thesis by blast
qed

subsection \<open>Updating a user\<close>

lemma role_apply_updates:
  "up_role up = None \<Longrightarrow> role (apply_updates up u) = role u"
  and isActive_apply_updates:
  "up_isActive up = None \<Longrightarrow> isActive (apply_updates up u) = isActive u"
  and uid_apply_updates: "uid (apply_updates up u) = uid u"
  by (simp_all add: apply_updates_def)

lemma updateOne_map:
  "(\<And>x. g (f x) = g x) \<Longrightarrow> map g (updateOne P f xs) = map g xs"
  by (induction xs) auto

lemma findOne_updateOne:
  "findOne P xs = Some x \<Longrightarrow> (\<And>y. P (f y) = P y) \<Longrightarrow> findOne P (updateOne P f xs) = Some (f x)"
  unfolding findOne_def by (induction xs) (auto split: if_splits)

lemma findOne_None_iff: "findOne P xs = None \<longleftrightarrow> (\<forall>x \<in> set xs. \<not> P x)"
  unfolding findOne_def by (auto simp: find_None_iff)

lemma updateUser_non_admin_frame:
  assumes "role reqUser \<noteq> ''admin''"
  shows "map uid (snd (updateUser us reqUser userId b errors)) = map uid us
       \<and> map role (snd (updateUser us reqUser userId b errors)) = map role us
       \<and> map isActive (snd (updateUser us reqUser userId b errors)) = map isActive us"
proof -
  let ?up = "\<lparr>up_username = ub_username b, up_email = ub_email b,
               up_role = None, up_isActive = None\<rparr>"
  have "snd (updateUser us reqUser userId b errors) = us
      \<or> snd (updateUser us reqUser userId b errors)
           = updateOne (\<lambda>x. uid x = userId) (apply_updates ?up) us"
    using assms by (simp add: updateUser_def Let_def split: option.splits)
  moreover have "map uid (updateOne (\<lambda>x. uid x = userId) (apply_updates ?up) us) = map uid us"
    by (rule updateOne_map) (simp add: apply_updates_def)
  moreover have "map role (updateOne (\<lambda>x. uid x = userId) (apply_updates ?up) us) = map role us"
    by (rule updateOne_map) (simp add: apply_updates_def)
  moreover have "map isActive (updateOne (\<lambda>x. uid x = userId) (apply_updates ?up) us)
      = map isActive us"
    by (rule updateOne_map) (simp add: apply_updates_def)
  ultimately show ?thesis by auto
qed

lemma put_user_non_admin_frame:
  assumes "role reqUser \<noteq> ''admin''"
  shows "map uid (snd (put_user isEmail us reqUser userId b)) = map uid us
       \<and> map role (snd (put_user isEmail us reqUser userId b)) = map role us
       \<and> map isActive (snd (put_user isEmail us reqUser userId b)) = map isActive us"
proof (cases "checkUserAccess reqUser userId")
  case False
  then show ?thesis by (simp add: put_user_def)
next
  case True
  obtain b' errors where v: "userUpdateValidation isEmail b = (b', errors)"
    by (cases "userUpdateValidation isEmail b")
  with True have "put_user isEmail us reqUser userId b = updateUser us reqUser userId b' errors"
    by (simp add: put_user_def)
  with updateUser_non_admin_frame[OF assms, of us userId b' errors] show ?thesis by simp
qed

lemma put_user_self_ok:
  assumes na: "role reqUser \<noteq> ''admin''"
    and stored: "findUserById us (uid reqUser) = Some u"
    and valid: "snd (userUpdateValidation isEmail b) = []"
    and free: "not_taken us (uid reqUser) (fst (userUpdateValidation isEmail b))"
  shows "put_user isEmail us reqUser (uid reqUser) b =
           (Response 200
              (Data (u\<lparr>username := (case ub_username b of Some n \<Rightarrow> trim n | None \<Rightarrow> username u),
                       email := (case ub_email b of Some e \<Rightarrow> e | None \<Rightarrow> email u)\<rparr>)),
            updateOne (\<lambda>x. uid x = uid reqUser)
              (\<lambda>x. x\<lparr>username := (case ub_username b of Some n \<Rightarrow> trim n | None \<Rightarrow> username x),
                      email := (case ub_email b of Some e \<Rightarrow> e | None \<Rightarrow> email x)\<rparr>) us)"
proof -
  obtain b' errors where v: "userUpdateValidation isEmail b = (b', errors)"
    by (cases "userUpdateValidation isEmail b")
  with valid have e: "errors = []" by simp
  from v have b': "ub_username b' = map_option trim (ub_username b)" "ub_email b' = ub_email b"
    by (auto simp: userUpdateValidation_def Let_def)
  from free v have "findOne (\<lambda>x. uid x \<noteq> uid reqUser
        \<and> (Some (email x) = ub_email b' \<or> Some (username x) = ub_username b')) us = None"
    by (auto simp: findOne_None_iff not_taken_def)
  moreover have "apply_updates \<lparr>up_username = ub_username b', up_email = ub_email b',
                                up_role = None, up_isActive = None\<rparr>
      = (\<lambda>x. x\<lparr>username := (case ub_username b of Some n \<Rightarrow> trim n | None \<Rightarrow> username x),
                email := (case ub_email b of Some e \<Rightarrow> e | None \<Rightarrow> email x)\<rparr>)"
    by (rule ext) (simp add: apply_updates_def b' split: option.splits)
  moreover have "checkUserAccess reqUser (uid reqUser)"
    by (simp add: checkUserAccess_def)
  ultimately show ?thesis
    using v e na stored by (simp add: put_user_def updateUser_def Let_def)
qed

lemma put_user_self_invalid:
  assumes "snd (userUpdateValidation isEmail b) \<noteq> []"
  shows "put_user isEmail us reqUser (uid reqUser) b =
           (Response 400 (ValidationErrors (snd (userUpdateValidation isEmail b))), us)"
proof -
  obtain b' errors where v: "userUpdateValidation isEmail b = (b', errors)"
    by (cases "userUpdateValidation isEmail b")
  moreover have "checkUserAccess reqUser (uid reqUser)"
    by (simp add: checkUserAccess_def)
  ultimately show ?thesis
    using assms by (simp add: put_user_def updateUser_def)
qed

lemma put_user_self_taken:
  assumes "snd (userUpdateValidation isEmail b) = []"
    and "\<not> not_taken us (uid reqUser) (fst (userUpdateValidation isEmail b))"
  shows "put_user isEmail us reqUser (uid reqUser) b =
           (Response 400 (ErrorMsg ''Email or username is already taken''), us)"
proof -
  obtain b' errors where v: "userUpdateValidation isEmail b = (b', errors)"
    by (cases "userUpdateValidation isEmail b")
  with assms(1) have e: "errors = []" by simp
  from assms(2) v have "findOne (\<lambda>x. uid x \<noteq> uid reqUser
        \<and> (Some (email x) = ub_email b' \<or> Some (username x) = ub_username b')) us \<noteq> None"
    by (auto simp: findOne_None_iff not_taken_def)
  then obtain x where "findOne (\<lambda>x. uid x \<noteq> uid reqUser
        \<and> (Some (email x) = ub_email b' \<or> Some (username x) = ub_username b')) us = Some x"
    by blast
  moreover have "checkUserAccess reqUser (uid reqUser)"
    by (simp add: checkUserAccess_def)
  ultimately show ?thesis
    using v e by (simp add: put_user_def updateUser_def)
qed

text \<open>
  C4, as the code has it. A self-update that includes \<open>role\<close> is answered 400, not 200,
  when the handle it asks for belongs to another user.
\<close>

theorem put_user_taken_name_counterexample:
  "put_user has_at seed_users seed_dev1 (uid seed_dev1) taken_name_body
     = (Response 400 (ErrorMsg ''Email or username is already taken''), seed_users)"
  by (simp add: put_user_def checkUserAccess_def userUpdateValidation_def check_def
      updateUser_def taken_name_body_def seed_users_def seed_admin_def seed_dev1_def
      seed_dev2_def seed_manager_def findOne_def trim_def is_space_def Let_def)

text \<open>
  C4, amended. A self-update by a non-administrator never changes the stored \<open>role\<close> or
  \<open>isActive\<close> of any user, whatever the body holds. A body that fails the field
  validation is answered 400 with the violations, and a body whose handle (trimmed) or
  email belongs to another user is answered 400; in both cases nothing is stored.
  Otherwise the reply is 200 and the handle (trimmed) and the email given in the body are
  merged into the caller's record, the other fields staying as they were.
\<close>

theorem put_user_self_non_admin:
  assumes "role reqUser \<noteq> ''admin''"
    and "findUserById us (uid reqUser) = Some u"
  shows "map uid (snd (put_user isEmail us reqUser (uid reqUser) b)) = map uid us
       \<and> map role (snd (put_user isEmail us reqUser (uid reqUser) b)) = map role us
       \<and> map isActive (snd (put_user isEmail us reqUser (uid reqUser) b)) = map isActive us
       \<and> (snd (userUpdateValidation isEmail b) = []
            \<and> not_taken us (uid reqUser) (fst (userUpdateValidation isEmail b)) \<longrightarrow>
          put_user isEmail us reqUser (uid reqUser) b =
            (Response 200
               (Data (u\<lparr>username := (case ub_username b of Some n \<Rightarrow> trim n | None \<Rightarrow> username u),
                        email := (case ub_email b of Some e \<Rightarrow> e | None \<Rightarrow> email u)\<rparr>)),
             updateOne (\<lambda>x. uid x = uid reqUser)
               (\<lambda>x. x\<lparr>username := (case ub_username b of Some n \<Rightarrow> trim n | None \<Rightarrow> username x),
                       email := (case ub_email b of Some e \<Rightarrow> e | None \<Rightarrow> email x)\<rparr>) us))
       \<and> (snd (userUpdateValidation isEmail b) \<noteq> [] \<longrightarrow>
          put_user isEmail us reqUser (uid reqUser) b =
            (Response 400 (ValidationErrors (snd (userUpdateValidation isEmail b))), us))
       \<and> (snd (userUpdateValidation isEmail b) = []
            \<and> \<not> not_taken us (uid reqUser) (fst (userUpdateValidation isEmail b)) \<longrightarrow>
          put_user isEmail us reqUser (uid reqUser) b =
            (Response 400 (ErrorMsg ''Email or username is already taken''), us))"
  using put_user_non_admin_frame[OF assms(1), of isEmail us "uid reqUser" b]
    put_user_self_ok[OF assms, of isEmail b]
    put_user_self_invalid[of isEmail b us reqUser]
    put_user_self_taken[of isEmail b us reqUser]
  by blast

theorem put_user_self_non_admin_witness:
  "role seed_dev1 \<noteq> ''admin''
   \<and> findUserById seed_users (uid seed_dev1) = Some seed_dev1
   \<and> snd (userUpdateValidation has_at rename_body) = []
   \<and> not_taken seed_users (uid seed_dev1) (fst (userUpdateValidation has_at rename_body))
   \<and> put_user has_at seed_users seed_dev1 (uid seed_dev1) rename_body =
        (Response 200 (Data (seed_dev1\<lparr>username := ''dev-one''\<rparr>)),
         [seed_admin, seed_dev1\<lparr>username := ''dev-one''\<rparr>, seed_dev2, seed_manager])
   \<and> role (seed_dev1\<lparr>username := ''dev-one''\<rparr>) = ''user''
   \<and> isActive (seed_dev1\<lparr>username := ''dev-one''\<rparr>)
   \<and> snd (userUpdateValidation has_at nbsp_body) =
        [\<lparr>ve_path = ''username'', ve_msg = ''Username must be at least 3 characters long'',
          ve_value = Some (JStr ''ab'')\<rparr>]
   \<and> put_user has_at seed_users seed_dev1 (uid seed_dev1) nbsp_body =
        (Response 400
           (ValidationErrors
              [\<lparr>ve_path = ''username'',
                ve_msg = ''Username must be at least 3 characters long'',
                ve_value = Some (JStr ''ab'')\<rparr>]),
         seed_users)
   \<and> snd (userUpdateValidation has_at taken_name_body) = []
   \<and> \<not> not_taken seed_users (uid seed_dev1) (fst (userUpdateValidation has_at taken_name_body))
   \<and> put_user has_at seed_users seed_dev1 (uid seed_dev1) taken_name_body =
        (Response 400 (ErrorMsg ''Email or username is already taken''), seed_users)"
proof -
  have h1: "role seed_dev1 \<noteq> ''admin''" by (simp add: seed_dev1_def)
  have h2: "findUserById seed_users (uid seed_dev1) = Some seed_dev1"
    by (simp add: findUserById_def findOne_def seed_users_def seed_admin_def seed_dev1_def)
  have t: "trim '' dev-one '' = ''dev-one''"
    by (simp add: trim_def is_space_def)
  have t2: "trim [CHR 0xA0, CHR ''a'', CHR ''b''] = ''ab''"
    by (simp add: trim_def is_space_def)
  have t3: "trim ''admin'' = ''admin''"
    by (simp add: trim_def is_space_def)
  have h3: "snd (userUpdateValidation has_at rename_body) = []"
    by (simp add: userUpdateValidation_def check_def rename_body_def t Let_def)
  have h4: "not_taken seed_users (uid seed_dev1) (fst (userUpdateValidation has_at rename_body))"
    by (simp add: not_taken_def userUpdateValidation_def rename_body_def t Let_def seed_users_def
        seed_admin_def seed_dev1_def seed_dev2_def seed_manager_def)
  have h5: "snd (userUpdateValidation has_at nbsp_body) =
        [\<lparr>ve_path = ''username'', ve_msg = ''Username must be at least 3 characters long'',
          ve_value = Some (JStr ''ab'')\<rparr>]"
    by (simp add: userUpdateValidation_def check_def nbsp_body_def t2 Let_def)
  have h6: "snd (userUpdateValidation has_at taken_name_body) = []"
    by (simp add: userUpdateValidation_def check_def taken_name_body_def t3 Let_def)
  have h7: "\<not> not_taken seed_users (uid seed_dev1)
                (fst (userUpdateValidation has_at taken_name_body))"
    by (simp add: not_taken_def userUpdateValidation_def taken_name_body_def t3 Let_def
        seed_users_def seed_admin_def seed_dev1_def seed_dev2_def seed_manager_def)
  from put_user_self_non_admin[OF h1 h2, of has_at rename_body] h3 h4
  have "put_user has_at seed_users seed_dev1 (uid seed_dev1) rename_body =
            (Response 200
               (Data (seed_dev1\<lparr>username := (case ub_username rename_body of
                                   Some n \<Rightarrow> trim n | None \<Rightarrow> username seed_dev1),
                        email := (case ub_email rename_body of
                                   Some e \<Rightarrow> e | None \<Rightarrow> email seed_dev1)\<rparr>)),
             updateOne (\<lambda>x. uid x = uid seed_dev1)
               (\<lambda>x. x\<lparr>username := (case ub_username rename_body of
                                   Some n \<Rightarrow> trim n | None \<Rightarrow> username x),
                       email := (case ub_email rename_body of
                                   Some e \<Rightarrow> e | None \<Rightarrow> email x)\<rparr>) seed_users)"
    by blast
  then have a: "put_user has_at seed_users seed_dev1 (uid seed_dev1) rename_body =
        (Response 200 (Data (seed_dev1\<lparr>username := ''dev-one''\<rparr>)),
         [seed_admin, seed_dev1\<lparr>username := ''dev-one''\<rparr>, seed_dev2, seed_manager])"
    by (simp add: rename_body_def t seed_users_def seed_admin_def seed_dev1_def)
  have b: "role (seed_dev1\<lparr>username := ''dev-one''\<rparr>) = ''user''"
    "isActive (seed_dev1\<lparr>username := ''dev-one''\<rparr>)"
    by (simp_all add: seed_dev1_def)
  have "snd (userUpdateValidation has_at nbsp_body) \<noteq> []"
    unfolding h5 by simp
  with put_user_self_non_admin[OF h1 h2, of has_at nbsp_body]
  have "put_user has_at seed_users seed_dev1 (uid seed_dev1) nbsp_body =
          (Response 400 (ValidationErrors (snd (userUpdateValidation has_at nbsp_body))),
           seed_users)"
    by blast
  then have c: "put_user has_at seed_users seed_dev1 (uid seed_dev1) nbsp_body =
        (Response 400
           (ValidationErrors
              [\<lparr>ve_path = ''username'',
                ve_msg = ''Username must be at least 3 characters long'',
                ve_value = Some (JStr ''ab'')\<rparr>]),
         seed_users)"
    unfolding h5 .
  from put_user_self_non_admin[OF h1 h2, of has_at taken_name_body] h6 h7
  have d: "put_user has_at seed_users seed_dev1 (uid seed_dev1) taken_name_body =
        (Response 400 (ErrorMsg ''Email or username is already taken''), seed_users)"
    by blast
  from h1 h2 h3 h4 a b h5 c h6 h7 d show ?thesis by blast
qed

subsection \<open>Registration\<close>

lemma register_created:
  assumes "register hash generateToken newId now us b errors = (Response 201 (Data (u, t)), us')"
  shows "role u = (case rb_role b of Some r \<Rightarrow> if r \<noteq> [] then r else ''user'' | None \<Rightarrow> ''user'')
       \<and> us' = us @ [u] \<and> uid u = newId"
  using assms
  by (auto simp: register_def saveNewUser_def Let_def split: if_splits option.splits)

lemma register_role_given:
  assumes "errors = []"
    and "findOne (\<lambda>x. Some (email x) = rb_email b \<or> Some (username x) = rb_username b) us = None"
    and "rb_username b = Some n" and "rb_email b = Some e" and "rb_password b = Some p"
    and "rb_role b = Some r" and "r \<in> set [''admin'', ''user'', ''manager'']"
  shows "register hash generateToken newId now us b errors =
           (Response 201
              (Data (\<lparr>uid = newId, username = n, email = e, password = hash p, role = r,
                      isActive = True, lastLogin = None, userCreatedAt = now\<rparr>,
                     generateToken newId)),
            us @ [\<lparr>uid = newId, username = n, email = e, password = hash p, role = r,
                   isActive = True, lastLogin = None, userCreatedAt = now\<rparr>])"
proof -
  from assms(7) have "r \<noteq> []" by auto
  with assms show ?thesis
    by (simp add: register_def saveNewUser_def Let_def)
qed

lemma register_role_default:
  assumes "errors = []"
    and "findOne (\<lambda>x. Some (email x) = rb_email b \<or> Some (username x) = rb_username b) us = None"
    and "rb_username b = Some n" and "rb_email b = Some e" and "rb_password b = Some p"
    and "rb_role b = None \<or> rb_role b = Some []"
  shows "register hash generateToken newId now us b errors =
           (Response 201
              (Data (\<lparr>uid = newId, username = n, email = e, password = hash p, role = ''user'',
                      isActive = True, lastLogin = None, userCreatedAt = now\<rparr>,
                     generateToken newId)),
            us @ [\<lparr>uid = newId, username = n, email = e, password = hash p, role = ''user'',
                   isActive = True, lastLogin = None, userCreatedAt = now\<rparr>])"
  using assms by (auto simp: register_def saveNewUser_def Let_def)

text \<open>
  C10. A registration that passes validation and meets no existing handle or email
  stores the role of the body as given, for each role of the enum (\<open>admin\<close> included),
  and the role \<open>user\<close> when the body has no role or an empty one. The handler takes no
  caller: who registers plays no part. Every created user has the role so determined.
\<close>

theorem register_role_verbatim:
  assumes "errors = []"
    and "findOne (\<lambda>x. Some (email x) = rb_email b \<or> Some (username x) = rb_username b) us = None"
    and "rb_username b = Some n" and "rb_email b = Some e" and "rb_password b = Some p"
  shows "(\<forall>r \<in> set [''admin'', ''user'', ''manager'']. rb_role b = Some r \<longrightarrow>
            register hash generateToken newId now us b errors =
              (Response 201
                 (Data (\<lparr>uid = newId, username = n, email = e, password = hash p, role = r,
                         isActive = True, lastLogin = None, userCreatedAt = now\<rparr>,
                        generateToken newId)),
               us @ [\<lparr>uid = newId, username = n, email = e, password = hash p, role = r,
                      isActive = True, lastLogin = None, userCreatedAt = now\<rparr>]))
       \<and> (rb_role b = None \<or> rb_role b = Some [] \<longrightarrow>
            register hash generateToken newId now us b errors =
              (Response 201
                 (Data (\<lparr>uid = newId, username = n, email = e, password = hash p,
                         role = ''user'', isActive = True, lastLogin = None,
                         userCreatedAt = now\<rparr>,
                        generateToken newId)),
               us @ [\<lparr>uid = newId, username = n, email = e, password = hash p,
                      role = ''user'', isActive = True, lastLogin = None,
                      userCreatedAt = now\<rparr>]))
       \<and> (\<forall>u t us'. register hash generateToken newId now us b errors
                        = (Response 201 (Data (u, t)), us') \<longrightarrow>
             role u = (case rb_role b of
                         Some r \<Rightarrow> if r \<noteq> [] then r else ''user''
                       | None \<Rightarrow> ''user''))"
proof (intro conjI ballI impI allI)
  fix r assume "r \<in> set [''admin'', ''user'', ''manager'']" and "rb_role b = Some r"
  with assms show "register hash generateToken newId now us b errors =
              (Response 201
                 (Data (\<lparr>uid = newId, username = n, email = e, password = hash p, role = r,
                         isActive = True, lastLogin = None, userCreatedAt = now\<rparr>,
                        generateToken newId)),
               us @ [\<lparr>uid = newId, username = n, email = e, password = hash p, role = r,
                      isActive = True, lastLogin = None, userCreatedAt = now\<rparr>])"
    by (intro register_role_given) simp_all
next
  assume "rb_role b = None \<or> rb_role b = Some []"
  with assms show "register hash generateToken newId now us b errors =
              (Response 201
                 (Data (\<lparr>uid = newId, username = n, email = e, password = hash p,
                         role = ''user'', isActive = True, lastLogin = None,
                         userCreatedAt = now\<rparr>,
                        generateToken newId)),
               us @ [\<lparr>uid = newId, username = n, email = e, password = hash p,
                      role = ''user'', isActive = True, lastLogin = None,
                      userCreatedAt = now\<rparr>])"
    by (intro register_role_default) simp_all
next
  fix u t us'
  assume "register hash generateToken newId now us b errors = (Response 201 (Data (u, t)), us')"
  from register_created[OF this]
  show "role u = (case rb_role b of
                         Some r \<Rightarrow> if r \<noteq> [] then r else ''user''
                       | None \<Rightarrow> ''user'')"
    by simp
qed

theorem register_role_verbatim_witness:
  "findOne (\<lambda>x. Some (email x) = rb_email admin_signup \<or> Some (username x) = rb_username admin_signup)
     seed_users = None
   \<and> rb_username admin_signup = Some ''mallory''
   \<and> rb_email admin_signup = Some ''mallory@example.com''
   \<and> rb_password admin_signup = Some ''secret12''
   \<and> ''admin'' \<in> set [''admin'', ''user'', ''manager'']
   \<and> rb_role admin_signup = Some ''admin''
   \<and> register toy_hash toy_token ''0c'' 9 seed_users admin_signup [] =
        (Response 201
           (Data (\<lparr>uid = ''0c'', username = ''mallory'', email = ''mallory@example.com'',
                   password = toy_hash ''secret12'', role = ''admin'', isActive = True,
                   lastLogin = None, userCreatedAt = 9\<rparr>,
                  toy_token ''0c'')),
         seed_users @ [\<lparr>uid = ''0c'', username = ''mallory'', email = ''mallory@example.com'',
                         password = toy_hash ''secret12'', role = ''admin'', isActive = True,
                         lastLogin = None, userCreatedAt = 9\<rparr>])"
proof -
  have h2: "findOne (\<lambda>x. Some (email x) = rb_email admin_signup
                        \<or> Some (username x) = rb_username admin_signup) seed_users = None"
    by (simp add: findOne_def admin_signup_def seed_users_def seed_admin_def seed_dev1_def
        seed_dev2_def seed_manager_def)
  have h3: "rb_username admin_signup = Some ''mallory''"
    and h4: "rb_email admin_signup = Some ''mallory@example.com''"
    and h5: "rb_password admin_signup = Some ''secret12''"
    and h6: "rb_role admin_signup = Some ''admin''"
    by (simp_all add: admin_signup_def)
  have h7: "''admin'' \<in> set [''admin'', ''user'', ''manager'']" by simp
  from register_role_verbatim[OF refl h2 h3 h4 h5, of toy_hash toy_token "''0c''" 9] h6 h7
  have "register toy_hash toy_token ''0c'' 9 seed_users admin_signup [] =
        (Response 201
           (Data (\<lparr>uid = ''0c'', username = ''mallory'', email = ''mallory@example.com'',
                   password = toy_hash ''secret12'', role = ''admin'', isActive = True,
                   lastLogin = None, userCreatedAt = 9\<rparr>,
                  toy_token ''0c'')),
         seed_users @ [\<lparr>uid = ''0c'', username = ''mallory'', email = ''mallory@example.com'',
                         password = toy_hash ''secret12'', role = ''admin'', isActive = True,
                         lastLogin = None, userCreatedAt = 9\<rparr>])"
    by blast
  with h2 h3 h4 h5 h6 h7 show ?thesis by blast
qed

subsection \<open>Negative hours\<close>

lemma create_validation_negative_hours:
  assumes "wb_hoursSpent b = Some h" and "h < 0"
  shows "\<lparr>ve_path = ''hoursSpent'', ve_msg = ''Hours spent must be a positive number'',
          ve_value = Some (JNum h)\<rparr> \<in> set (snd (workloadCreateValidation isISO8601 b))"
  using assms by (simp add: workloadCreateValidation_def require_def Let_def)

lemma update_validation_negative_hours:
  assumes "wb_hoursSpent b = Some h" and "h < 0"
  shows "\<lparr>ve_path = ''hoursSpent'', ve_msg = ''Hours spent must be a positive number'',
          ve_value = Some (JNum h)\<rparr> \<in> set (snd (workloadUpdateValidation isISO8601 b))"
  using assms by (simp add: workloadUpdateValidation_def check_def Let_def)

lemma post_workload_negative_hours:
  assumes "wb_hoursSpent b = Some h" and "h < 0"
  shows "post_workload isISO8601 castDate newId now ws reqUser b =
           (Response 400 (ValidationErrors (snd (workloadCreateValidation isISO8601 b))), ws)"
proof -
  obtain b' errors where v: "workloadCreateValidation isISO8601 b = (b', errors)"
    by (cases "workloadCreateValidation isISO8601 b")
  with create_validation_negative_hours[OF assms, of isISO8601] have "errors \<noteq> []" by auto
  with v show ?thesis by (simp add: post_workload_def createWorkload_def)
qed

lemma assign_hours:
  assumes "assign castDate w b = Some w'" and "wb_hoursSpent b = Some h"
  shows "hoursSpent w' = h"
proof (cases "case wb_date b of None \<Rightarrow> Some (date w) | Some ds \<Rightarrow> castDate ds")
  case None
  with assms(1) show ?thesis by (simp add: assign_def)
next
  case (Some dt)
  with assms(1) have "hoursSpent w' = (case wb_hoursSpent b of None \<Rightarrow> hoursSpent w | Some x \<Rightarrow> x)"
    by (clarsimp simp: assign_def)
  with assms(2) show ?thesis by simp
qed

lemma updateWorkload_negative_hours:
  assumes "wb_hoursSpent b = Some h" and "h < 0"
  shows "snd (updateWorkload castDate now ws reqUser entryId b) = ws
       \<and> statusCode (fst (updateWorkload castDate now ws reqUser entryId b)) \<in> {403, 404, 500}"
proof (cases "findOne (\<lambda>w. wid w = entryId) ws")
  case None
  then show ?thesis by (simp add: updateWorkload_def)
next
  case (Some w)
  show ?thesis
  proof (cases "role reqUser \<noteq> ''admin'' \<and> developer w \<noteq> uid reqUser")
    case True
    with Some show ?thesis by (simp add: updateWorkload_def)
  next
    case False
    show ?thesis
    proof (cases "assign castDate w b")
      case None
      with Some False show ?thesis by (simp add: updateWorkload_def)
    next
      case (Some w')
      from assign_hours[OF Some assms(1)] assms(2) have "\<not> schema_valid w'"
        by (simp add: schema_valid_def)
      with Some \<open>findOne (\<lambda>w. wid w = entryId) ws = Some w\<close> False show ?thesis
        by (simp add: updateWorkload_def)
    qed
  qed
qed

lemma put_workload_negative_hours:
  assumes "wb_hoursSpent b = Some h" and "h < 0"
  shows "snd (put_workload isISO8601 castDate now ws reqUser entryId b) = ws
       \<and> statusCode (fst (put_workload isISO8601 castDate now ws reqUser entryId b))
           \<in> {403, 404, 500}"
proof -
  obtain b' errors where v: "workloadUpdateValidation isISO8601 b = (b', errors)"
    by (cases "workloadUpdateValidation isISO8601 b")
  then have "wb_hoursSpent b' = wb_hoursSpent b"
    by (auto simp: workloadUpdateValidation_def Let_def)
  with assms(1) have "wb_hoursSpent b' = Some h" by simp
  from updateWorkload_negative_hours[OF this assms(2), of castDate now ws reqUser entryId] v
  show ?thesis by (simp add: put_workload_def)
qed

text \<open>
  C3. The owner of entry \<open>e1\<close> sends an update whose only field is \<open>hoursSpent = -1\<close>. The
  validation chain of the route records the violation, but \<open>updateWorkload\<close> never reads
  it: the request reaches \<^verbatim>\<open>save()\<close>, the schema's \<^verbatim>\<open>min: 0\<close> makes it throw, and the
  reply is 500 with a generic message instead of 400 with the violations. The store is
  unchanged.
\<close>

theorem put_workload_negative_hours_500:
  "put_workload isISO8601 castDate now sample_entries seed_dev1 ''e1'' negative_hours_body
     = (Response 500 (ErrorMsg ''Error updating workload entry''), sample_entries)
   \<and> snd (workloadUpdateValidation isISO8601 negative_hours_body)
       = [\<lparr>ve_path = ''hoursSpent'', ve_msg = ''Hours spent must be a positive number'',
           ve_value = Some (JNum (- 1))\<rparr>]"
  by (simp add: put_workload_def workloadUpdateValidation_def check_def updateWorkload_def
      assign_def schema_valid_def negative_hours_body_def empty_body_def sample_entries_def
      entry_def seed_dev1_def findOne_def Let_def)

subsection \<open>The credential hash is never sent\<close>

lemma user_doc_has_password: "(''password'', JStr (password u)) \<in> set (user_doc u)"
  by (simp add: user_doc_def)

lemma keys_user_json:
  "json_keys (user_json u) =
     [''_id'', ''username'', ''email'', ''role'', ''isActive'', ''lastLogin'', ''createdAt'', ''__v'']"
  by (simp add: user_json_def user_doc_def exclude_def split: option.splits)

lemma keys_populate: "''password'' \<notin> set (json_keys (populate us d))"
proof (cases "findUserById us d")
  case None
  then show ?thesis by (simp add: populate_def)
next
  case (Some u)
  then have "populate us d = user_json u" by (simp add: populate_def user_json_def)
  then show ?thesis by (simp add: keys_user_json)
qed

lemma keys_optional_field:
  "k \<noteq> ''password'' \<Longrightarrow> ''password'' \<notin> set (json_keys (JObj (optional_field k v)))"
  by (cases v) (simp_all add: optional_field_def)

lemma keys_JObj_append:
  "set (json_keys (JObj (xs @ ys))) = set (json_keys (JObj xs)) \<union> set (json_keys (JObj ys))"
  by simp

lemma keys_JArr_strings: "json_keys (JArr (map JStr xs)) = []"
  by (induction xs) simp_all

lemma keys_workload_json: "''password'' \<notin> set (json_keys (workload_json us w))"
proof -
  have a: "''password'' \<notin> set (json_keys (JObj
      [(''_id'', JStr (wid w)), (''developer'', populate us (developer w)),
       (''project'', JStr (project w)), (''taskName'', JStr (taskName w)),
       (''taskType'', JStr (taskType w)), (''hoursSpent'', JNum (hoursSpent w)),
       (''date'', JNum (real_of_int (date w))), (''status'', JStr (status w)),
       (''priority'', JStr (priority w))]))"
    using keys_populate[of us "developer w"] by simp
  have b: "''password'' \<notin> set (json_keys (JObj (optional_field ''description'' (description w))))"
    and c: "''password'' \<notin> set (json_keys (JObj (optional_field ''blockers'' (blockers w))))"
    by (rule keys_optional_field, simp)+
  have d: "''password'' \<notin> set (json_keys (JObj
      [(''tags'', JArr (map JStr (tags w))),
       (''dependencies'', JArr (map JStr (dependencies w))),
       (''createdAt'', JNum (real_of_int (createdAt w))),
       (''updatedAt'', JNum (real_of_int (updatedAt w))), (''__v'', JNum 0)]))"
    using keys_JArr_strings[of "tags w"] keys_JArr_strings[of "dependencies w"] by simp
  from a b c d show ?thesis
    unfolding workload_json_def keys_JObj_append by blast
qed

lemma keys_listing_json:
  assumes "name \<noteq> ''password''" and "\<And>x. ''password'' \<notin> set (json_keys (f x))"
  shows "''password'' \<notin> set (json_keys (listing_json name f l))"
  using assms by (auto simp: listing_json_def split: option.splits)

lemma keys_user_stats_json: "''password'' \<notin> set (json_keys (user_stats_json st))"
  by (auto simp: user_stats_json_def role_stat_json_def)

lemma keys_dev_stats_json: "''password'' \<notin> set (json_keys (dev_stats_json d))"
  by (auto simp: dev_stats_json_def type_stat_json_def user_doc_def exclude_def
      split: option.splits)

lemma keys_dev_stats_list: "''password'' \<notin> set (json_keys (JArr (map dev_stats_json l)))"
  using keys_dev_stats_json by (induction l) auto

lemma keys_scalar_error:
  "scalar_error e \<Longrightarrow> ''password'' \<notin> set (json_keys (verror_json e))"
  by (auto simp: scalar_error_def verror_json_def split: option.splits)

lemma keys_response_json:
  assumes "\<And>x. ''password'' \<notin> set (json_keys (f x))"
    and "\<And>es. payload r = ValidationErrors es \<Longrightarrow> \<forall>e \<in> set es. scalar_error e"
  shows "''password'' \<notin> set (json_keys (response_json f r))"
proof (cases "payload r")
  case (Data x)
  with assms(1) show ?thesis by (simp add: response_json_def)
next
  case (ErrorMsg m)
  then show ?thesis by (simp add: response_json_def)
next
  case (ValidationErrors es)
  with assms(2) keys_scalar_error have "\<forall>e \<in> set es. ''password'' \<notin> set (json_keys (verror_json e))"
    by blast
  with ValidationErrors show ?thesis by (simp add: response_json_def)
next
  case (Message m)
  then show ?thesis by (simp add: response_json_def)
qed

lemma check_scalar:
  "e \<in> set (check field ok JStr path msg) \<Longrightarrow> scalar_error e"
  "e' \<in> set (check hours okh JNum path msg) \<Longrightarrow> scalar_error e'"
  "e'' \<in> set (check fl okf flag_json path msg) \<Longrightarrow> scalar_error e''"
proof -
  show "e \<in> set (check field ok JStr path msg) \<Longrightarrow> scalar_error e"
    by (cases field) (auto simp: check_def scalar_error_def split: if_splits)
  show "e' \<in> set (check hours okh JNum path msg) \<Longrightarrow> scalar_error e'"
    by (cases hours) (auto simp: check_def scalar_error_def split: if_splits)
  show "e'' \<in> set (check fl okf flag_json path msg) \<Longrightarrow> scalar_error e''"
  proof (cases fl)
    case None
    then show "e'' \<in> set (check fl okf flag_json path msg) \<Longrightarrow> scalar_error e''"
      by (simp add: check_def)
  next
    case (Some v)
    then show "e'' \<in> set (check fl okf flag_json path msg) \<Longrightarrow> scalar_error e''"
      by (cases v) (auto simp: check_def scalar_error_def split: if_splits)
  qed
qed

lemma require_scalar:
  "e \<in> set (require field ok JStr path msg) \<Longrightarrow> scalar_error e"
  "e' \<in> set (require hours okh JNum path msg) \<Longrightarrow> scalar_error e'"
proof -
  show "e \<in> set (require field ok JStr path msg) \<Longrightarrow> scalar_error e"
    by (cases field) (auto simp: require_def scalar_error_def split: if_splits)
  show "e' \<in> set (require hours okh JNum path msg) \<Longrightarrow> scalar_error e'"
    by (cases hours) (auto simp: require_def scalar_error_def split: if_splits)
qed

lemma userUpdateValidation_scalar:
  assumes "e \<in> set (snd (userUpdateValidation isEmail b))"
  shows "scalar_error e"
  using assms unfolding userUpdateValidation_def Let_def snd_conv set_append Un_iff
  by (elim disjE) (erule check_scalar)+

lemma workloadCreateValidation_scalar:
  assumes "e \<in> set (snd (workloadCreateValidation isISO8601 b))"
  shows "scalar_error e"
  using assms unfolding workloadCreateValidation_def Let_def snd_conv set_append Un_iff
  by (elim disjE) (erule require_scalar)+
lemma getUsers_payload: "payload (getUsers regexTest us q) \<noteq> ValidationErrors es"
  by (simp add: getUsers_def Let_def split: option.splits)

lemma getUserById_payload: "payload (getUserById us userId) \<noteq> ValidationErrors es"
  by (simp add: getUserById_def split: option.splits)

lemma getUserStats_payload: "payload (getUserStats us) \<noteq> ValidationErrors es"
  by (simp add: getUserStats_def Let_def)

lemma getWorkloads_payload: "payload (getWorkloads ws reqUser q) \<noteq> ValidationErrors es"
  by (simp add: getWorkloads_unfold split: option.splits)

lemma getWorkloadStats_payload:
  "payload (getWorkloadStats us ws reqUser q) \<noteq> ValidationErrors es"
  by (simp add: getWorkloadStats_def split: option.splits)

lemma updateUser_payload:
  "payload (fst (updateUser us reqUser userId b errors)) = ValidationErrors es \<Longrightarrow> es = errors"
  by (simp add: updateUser_def Let_def split: if_splits option.splits)

lemma put_user_payload:
  assumes "payload (fst (put_user isEmail us reqUser userId b)) = ValidationErrors es"
  shows "es = snd (userUpdateValidation isEmail b)"
proof (cases "checkUserAccess reqUser userId")
  case False
  with assms show ?thesis by (simp add: put_user_def)
next
  case True
  obtain b' errors where v: "userUpdateValidation isEmail b = (b', errors)"
    by (cases "userUpdateValidation isEmail b")
  with True assms have "payload (fst (updateUser us reqUser userId b' errors)) = ValidationErrors es"
    by (simp add: put_user_def)
  from updateUser_payload[OF this] v show ?thesis by simp
qed

lemma createWorkload_payload:
  "payload (fst (createWorkload castDate newId now ws reqUser b errors)) = ValidationErrors es
   \<Longrightarrow> es = errors"
  by (simp add: createWorkload_def split: if_splits option.splits)

lemma post_workload_payload:
  assumes "payload (fst (post_workload isISO8601 castDate newId now ws reqUser b))
             = ValidationErrors es"
  shows "es = snd (workloadCreateValidation isISO8601 b)"
proof -
  obtain b' errors where v: "workloadCreateValidation isISO8601 b = (b', errors)"
    by (cases "workloadCreateValidation isISO8601 b")
  with assms have "payload (fst (createWorkload castDate newId now ws reqUser b' errors))
      = ValidationErrors es"
    by (simp add: post_workload_def)
  from createWorkload_payload[OF this] v show ?thesis by simp
qed

lemma updateWorkload_payload:
  "payload (fst (updateWorkload castDate now ws reqUser entryId b)) \<noteq> ValidationErrors es"
  by (simp add: updateWorkload_def Let_def split: option.splits)

lemma put_workload_payload:
  "payload (fst (put_workload isISO8601 castDate now ws reqUser entryId b)) \<noteq> ValidationErrors es"
  by (cases "workloadUpdateValidation isISO8601 b")
     (simp add: put_workload_def updateWorkload_payload)

text \<open>
  C1. Whatever the store holds and whatever the request is, the JSON body sent by the
  user list, the user detail, the user update, the user statistics, the workload list,
  the workload statistics and the entry create and update endpoints has no key
  \<open>password\<close> at any depth, although every stored user document has one.
\<close>

theorem password_never_sent:
  "''password'' \<notin> set (json_keys (sent_getUsers regexTest us uq))
   \<and> ''password'' \<notin> set (json_keys (sent_getUserById us userId))
   \<and> ''password'' \<notin> set (json_keys (sent_put_user isEmail us reqUser userId ub))
   \<and> ''password'' \<notin> set (json_keys (sent_getUserStats us))
   \<and> ''password'' \<notin> set (json_keys (sent_getWorkloads us ws reqUser wq))
   \<and> ''password'' \<notin> set (json_keys (sent_getWorkloadStats us ws reqUser sq))
   \<and> ''password'' \<notin> set (json_keys
         (sent_post_workload isISO8601 castDate newId now us ws reqUser wb))
   \<and> ''password'' \<notin> set (json_keys
         (sent_put_workload isISO8601 castDate now us ws reqUser entryId wb))
   \<and> (''password'', JStr (password reqUser)) \<in> set (user_doc reqUser)"
proof (intro conjI)
  have uj: "\<And>x. ''password'' \<notin> set (json_keys (user_json x))"
    by (simp add: keys_user_json)
  show "''password'' \<notin> set (json_keys (sent_getUsers regexTest us uq))"
    unfolding sent_getUsers_def
    by (rule keys_response_json) (simp_all add: keys_listing_json uj getUsers_payload)
  show "''password'' \<notin> set (json_keys (sent_getUserById us userId))"
    unfolding sent_getUserById_def
    by (rule keys_response_json) (simp_all add: uj getUserById_payload)
  show "''password'' \<notin> set (json_keys (sent_put_user isEmail us reqUser userId ub))"
    unfolding sent_put_user_def
  proof (rule keys_response_json)
    fix es assume "payload (fst (put_user isEmail us reqUser userId ub)) = ValidationErrors es"
    from put_user_payload[OF this] show "\<forall>e \<in> set es. scalar_error e"
      using userUpdateValidation_scalar by blast
  qed (rule uj)
  show "''password'' \<notin> set (json_keys (sent_getUserStats us))"
    unfolding sent_getUserStats_def
    by (rule keys_response_json) (simp_all add: keys_user_stats_json getUserStats_payload)
  show "''password'' \<notin> set (json_keys (sent_getWorkloads us ws reqUser wq))"
    unfolding sent_getWorkloads_def
    by (rule keys_response_json)
       (simp_all add: keys_listing_json keys_workload_json getWorkloads_payload)
  show "''password'' \<notin> set (json_keys (sent_getWorkloadStats us ws reqUser sq))"
    unfolding sent_getWorkloadStats_def
    by (rule keys_response_json) (simp_all add: keys_dev_stats_json getWorkloadStats_payload)
  show "''password'' \<notin> set (json_keys
         (sent_post_workload isISO8601 castDate newId now us ws reqUser wb))"
    unfolding sent_post_workload_def
  proof (rule keys_response_json)
    fix es
    assume "payload (fst (post_workload isISO8601 castDate newId now ws reqUser wb))
              = ValidationErrors es"
    from post_workload_payload[OF this] show "\<forall>e \<in> set es. scalar_error e"
      using workloadCreateValidation_scalar by blast
  qed (rule keys_workload_json)
  show "''password'' \<notin> set (json_keys
         (sent_put_workload isISO8601 castDate now us ws reqUser entryId wb))"
    unfolding sent_put_workload_def
    by (rule keys_response_json) (simp_all add: keys_workload_json put_workload_payload)
  show "(''password'', JStr (password reqUser)) \<in> set (user_doc reqUser)"
    by (rule user_doc_has_password)
qed

lemma sample_user_detail:
  "sent_getUserById seed_users ''01'' =
     JObj [(''_id'', JStr ''01''), (''username'', JStr ''developer1''),
           (''email'', JStr ''dev1@example.com''), (''role'', JStr ''user''),
           (''isActive'', JBool True), (''lastLogin'', JNull), (''createdAt'', JNum 2),
           (''__v'', JNum 0)]"
  by (simp add: sent_getUserById_def response_json_def getUserById_def findUserById_def
      findOne_def seed_users_def seed_admin_def seed_dev1_def user_json_def user_doc_def
      exclude_def)

theorem password_never_sent_witness:
  "sent_getUserById seed_users ''01'' =
     JObj [(''_id'', JStr ''01''), (''username'', JStr ''developer1''),
           (''email'', JStr ''dev1@example.com''), (''role'', JStr ''user''),
           (''isActive'', JBool True), (''lastLogin'', JNull), (''createdAt'', JNum 2),
           (''__v'', JNum 0)]
   \<and> ''password'' \<notin> set (json_keys (sent_getUserById seed_users ''01''))
   \<and> (''password'', JStr (password seed_dev1)) \<in> set (user_doc seed_dev1)"
  using password_never_sent[of _ seed_users _ "''01''" _ seed_dev1] sample_user_detail
  by blast

end
